theory Spec2Isabelle
  imports Main
begin

section \<open>Shared data: envelopes, connection states, errors\<close>

text \<open>
  \<^verbatim>\<open>types.ts\<close>: \<^verbatim>\<open>ConnectionState\<close> is an enum, \<^verbatim>\<open>SwarmMessage\<close> an interface whose
  \<^verbatim>\<open>target\<close> is optional (\<^verbatim>\<open>target?: string\<close>). The payload is opaque to all code modelled
  here, so it is a type parameter. \<^verbatim>\<open>errors.ts\<close>: the error codes and the error class; a
  plain JavaScript \<^verbatim>\<open>Error\<close> is the first constructor.
\<close>

datatype ConnectionState = Disconnected | Connecting | Connected | Error

datatype SwarmRelayErrorCode =
  ConnectionFailed | NotConnected | SendFailed | TransportError | InvalidMessage | WorkerNotSupported

datatype error =
  JsError string
| SwarmRelayError string SwarmRelayErrorCode "error option"

record 'p SwarmMessage =
  id' :: string
  source :: string
  target :: "string option"
  event :: string
  payload :: 'p
  timestamp :: nat

text \<open>
  The control messages exchanged over a port, tagged by their \<^verbatim>\<open>type\<close> field:
  \<^verbatim>\<open>__swarm_register__\<close>, \<^verbatim>\<open>__swarm_registered__\<close>, \<^verbatim>\<open>__swarm_disconnect__\<close>,
  \<^verbatim>\<open>__swarm_message__\<close>; any other tag is \<open>Unknown\<close>.
\<close>

datatype 'p wire =
  Register string
| Registered string
| Disconnect
| Message "'p SwarmMessage"
| Unknown string

subsection \<open>JavaScript \<^verbatim>\<open>Map\<close> and \<^verbatim>\<open>Set\<close>, in insertion order\<close>

text \<open>
  A \<^verbatim>\<open>Map\<close> iterates in insertion order; \<^verbatim>\<open>set\<close> on a key that is present replaces the
  value where it stands, \<^verbatim>\<open>set\<close> on a new key appends. A \<^verbatim>\<open>Set\<close> likewise keeps the
  position of the first insertion.
\<close>

fun map_set :: "'k \<Rightarrow> 'v \<Rightarrow> ('k \<times> 'v) list \<Rightarrow> ('k \<times> 'v) list" where
  "map_set k v [] = [(k, v)]"
| "map_set k v ((k', v') # m) = (if k' = k then (k, v) # m else (k', v') # map_set k v m)"

definition map_delete :: "'k \<Rightarrow> ('k \<times> 'v) list \<Rightarrow> ('k \<times> 'v) list" where
  "map_delete k m = filter (\<lambda>kv. fst kv \<noteq> k) m"

definition map_get :: "('k \<times> 'v) list \<Rightarrow> 'k \<Rightarrow> 'v option" where
  "map_get m k = map_of m k"

definition set_add :: "'a \<Rightarrow> 'a list \<Rightarrow> 'a list" where
  "set_add x s = (if x \<in> set s then s else s @ [x])"

definition set_delete :: "'a \<Rightarrow> 'a list \<Rightarrow> 'a list" where
  "set_delete x s = filter (\<lambda>y. y \<noteq> x) s"

section \<open>The hub: \<^verbatim>\<open>swarm-relay-worker.ts\<close>\<close>

text \<open>
  The worker script keeps one module-level \<^verbatim>\<open>ports\<close> map (client id to port) and, for
  every connected port, a closure variable \<^verbatim>\<open>clientId\<close> that starts as \<^verbatim>\<open>null\<close>. A port
  is identified by a number. What the handler posts is returned as a list of
  (port, message) pairs, in the order of the \<^verbatim>\<open>postMessage\<close> calls.
\<close>

type_synonym port = nat

record hub =
  ports :: "(string \<times> port) list"
  conn_clientId :: "port \<Rightarrow> string option"

definition hub_init :: hub where
  "hub_init = \<lparr>ports = [], conn_clientId = (\<lambda>_. None)\<rparr>"

text \<open>
  \<^verbatim>\<open>if (clientId)\<close> and \<^verbatim>\<open>if (message.target)\<close> test JavaScript truthiness: of a value that
  is a string, \<^verbatim>\<open>null\<close> or \<^verbatim>\<open>undefined\<close>, only a non-empty string passes. Below, such a
  test is the pair of cases \<open>Some s\<close> with \<open>s \<noteq> []\<close> (passes) and \<open>Some []\<close> or \<open>None\<close>
  (fails).

  The body shared by the \<^verbatim>\<open>__swarm_disconnect__\<close> branch and \<^verbatim>\<open>port.onmessageerror\<close>:
\<close>

definition forget_client :: "port \<Rightarrow> hub \<Rightarrow> hub" where
  "forget_client p h =
     (case conn_clientId h p of
        None \<Rightarrow> h
      | Some c \<Rightarrow>
          if c \<noteq> [] then h\<lparr>ports := map_delete c (ports h), conn_clientId := (conn_clientId h)(p := None)\<rparr>
          else h)"

text \<open>\<^verbatim>\<open>ports.forEach(function forwardBroadcast(p, id) { if (id !== message.source) ... })\<close>\<close>

fun forwardBroadcast :: "'p SwarmMessage \<Rightarrow> (string \<times> port) list \<Rightarrow> (port \<times> 'p wire) list" where
  "forwardBroadcast message [] = []"
| "forwardBroadcast message ((cid, p) # rest) =
     (if cid \<noteq> source message then (p, Message message) # forwardBroadcast message rest
      else forwardBroadcast message rest)"

text \<open>\<^verbatim>\<open>port.onmessage = function handleMessage(event)\<close>, for the port \<open>p\<close>.\<close>

fun hub_handleMessage :: "port \<Rightarrow> 'p wire \<Rightarrow> hub \<Rightarrow> (port \<times> 'p wire) list \<times> hub" where
  "hub_handleMessage p (Register c) h =
     ([(p, Registered c)],
      h\<lparr>ports := map_set c p (ports h), conn_clientId := (conn_clientId h)(p := Some c)\<rparr>)"
| "hub_handleMessage p Disconnect h = ([], forget_client p h)"
| "hub_handleMessage p (Message message) h =
     (case target message of
        Some t \<Rightarrow>
          if t \<noteq> [] then
            (case map_get (ports h) t of
               Some targetPort \<Rightarrow> ([(targetPort, Message message)], h)
             | None \<Rightarrow> ([], h))
          else (forwardBroadcast message (ports h), h)
      | None \<Rightarrow> (forwardBroadcast message (ports h), h))"
| "hub_handleMessage p (Registered c) h = ([], h)"
| "hub_handleMessage p (Unknown ty) h = ([], h)"

text \<open>\<^verbatim>\<open>port.onmessageerror = function handleError()\<close>\<close>

definition hub_handleError :: "port \<Rightarrow> hub \<Rightarrow> hub" where
  "hub_handleError p h = forget_client p h"

text \<open>
  The hub's event loop takes one event at a time: a message on a port, or a
  deserialisation error on a port.
\<close>

datatype 'p hub_event = PortMessage port "'p wire" | PortMessageError port

fun hub_step :: "'p hub_event \<Rightarrow> hub \<Rightarrow> (port \<times> 'p wire) list \<times> hub" where
  "hub_step (PortMessage p d) h = hub_handleMessage p d h"
| "hub_step (PortMessageError p) h = ([], hub_handleError p h)"

fun hub_run :: "'p hub_event list \<Rightarrow> hub \<Rightarrow> hub" where
  "hub_run [] h = h"
| "hub_run (e # es) h = hub_run es (snd (hub_step e h))"

subsection \<open>A hub with three clients, and envelopes sent by the first\<close>

definition hub3 :: hub where
  "hub3 = \<lparr>ports = [(''shell'', 1), (''cart'', 2), (''profile'', 3)],
            conn_clientId = (\<lambda>_. None)(1 := Some ''shell'', 2 := Some ''cart'', 3 := Some ''profile'')\<rparr>"

definition envelope :: "string option \<Rightarrow> string SwarmMessage" where
  "envelope t = \<lparr>id' = ''1-a'', source = ''shell'', target = t, event = ''notify'',
                  payload = ''hi'', timestamp = 1\<rparr>"

text \<open>
  A hub on which the port 1 registered twice, first as \<^verbatim>\<open>shell\<close> and then as \<^verbatim>\<open>admin\<close>,
  before the port 2 registered as \<^verbatim>\<open>cart\<close>.
\<close>

definition twice_registered_hub :: hub where
  "twice_registered_hub =
     hub_run [PortMessage 1 (Register ''shell'') :: string hub_event,
              PortMessage 1 (Register ''admin''),
              PortMessage 2 (Register ''cart'')] hub_init"

section \<open>Statements that may throw\<close>

text \<open>
  A \<^verbatim>\<open>void\<close> method is a function from the state before to the thrown error, if any, and
  the state after: mutations made before a \<^verbatim>\<open>throw\<close> stay. \<open>try_catch\<close> is
  \<^verbatim>\<open>try { body } catch (error) { handler(error) }\<close>; \<open>for_each\<close> is a \<^verbatim>\<open>for ... of\<close> loop over
  a collection that the body does not change, and stops at the first throw that leaves
  the body; \<open>and_then\<close> is sequencing.
\<close>

type_synonym 's stmt = "'s \<Rightarrow> error option \<times> 's"

definition try_catch :: "'s stmt \<Rightarrow> (error \<Rightarrow> 's stmt) \<Rightarrow> 's stmt" where
  "try_catch body handler s =
     (case body s of (None, s') \<Rightarrow> (None, s') | (Some e, s') \<Rightarrow> handler e s')"

definition and_then :: "'s stmt \<Rightarrow> 's stmt \<Rightarrow> 's stmt" where
  "and_then a b s = (case a s of (None, s') \<Rightarrow> b s' | (Some e, s') \<Rightarrow> (Some e, s'))"

fun for_each :: "('a \<Rightarrow> 's stmt) \<Rightarrow> 'a list \<Rightarrow> 's stmt" where
  "for_each body [] s = (None, s)"
| "for_each body (x # xs) s =
     (case body x s of (None, s') \<Rightarrow> for_each body xs s' | (Some e, s') \<Rightarrow> (Some e, s'))"

section \<open>The test-double transport: \<^verbatim>\<open>mock-transport-adapter.ts\<close>\<close>

text \<open>
  The callbacks registered on a transport are compared by identity. The relay registers
  its own two bound methods, \<^verbatim>\<open>this.handleMessage\<close> and \<^verbatim>\<open>this.handleError\<close>; any other
  callback is a numbered foreign one. Record fields share one name space, so the private
  fields that several classes have under the same name carry the class as a prefix.
\<close>

datatype message_handler = RelayHandleMessage | ForeignMessageHandler nat

datatype error_handler = RelayHandleError | ForeignErrorHandler nat

record 'p MockTransportAdapter =
  mock_messageHandlers :: "message_handler list"
  mock_errorHandlers :: "error_handler list"
  mock_state :: ConnectionState
  mock_clientId :: "string option"
  sentMessages :: "'p SwarmMessage list"
  connectCalled :: bool
  disconnectCalled :: bool
  connectError :: "error option"
  sendError :: "error option"

definition mock_new :: "'p MockTransportAdapter" where
  "mock_new = \<lparr>mock_messageHandlers = [], mock_errorHandlers = [], mock_state = Disconnected,
     mock_clientId = None, sentMessages = [], connectCalled = False, disconnectCalled = False,
     connectError = None, sendError = None\<rparr>"

text \<open>
  \<^verbatim>\<open>async connect(clientId)\<close> has no \<^verbatim>\<open>await\<close>: its body runs to the end when it is called,
  and the error it throws is the rejection of the promise it returns.
\<close>

definition mock_connect :: "string \<Rightarrow> 'p MockTransportAdapter stmt" where
  "mock_connect cid t =
     (let t1 = t\<lparr>connectCalled := True, mock_clientId := Some cid\<rparr>
      in case connectError t1 of
           Some e \<Rightarrow> (Some e, t1\<lparr>mock_state := Error\<rparr>)
         | None \<Rightarrow> (None, t1\<lparr>mock_state := Connected\<rparr>))"

definition mock_disconnect :: "'p MockTransportAdapter \<Rightarrow> 'p MockTransportAdapter" where
  "mock_disconnect t =
     t\<lparr>disconnectCalled := True, mock_state := Disconnected, mock_clientId := None,
       mock_messageHandlers := [], mock_errorHandlers := []\<rparr>"

definition mock_send :: "'p SwarmMessage \<Rightarrow> 'p MockTransportAdapter stmt" where
  "mock_send message t =
     (case sendError t of
        Some e \<Rightarrow> (Some e, t)
      | None \<Rightarrow> (None, t\<lparr>sentMessages := sentMessages t @ [message]\<rparr>))"

definition mock_onMessage :: "message_handler \<Rightarrow> 'p MockTransportAdapter \<Rightarrow> 'p MockTransportAdapter" where
  "mock_onMessage handler t = t\<lparr>mock_messageHandlers := set_add handler (mock_messageHandlers t)\<rparr>"

definition mock_offMessage :: "message_handler \<Rightarrow> 'p MockTransportAdapter \<Rightarrow> 'p MockTransportAdapter" where
  "mock_offMessage handler t = t\<lparr>mock_messageHandlers := set_delete handler (mock_messageHandlers t)\<rparr>"

definition mock_onError :: "error_handler \<Rightarrow> 'p MockTransportAdapter \<Rightarrow> 'p MockTransportAdapter" where
  "mock_onError handler t = t\<lparr>mock_errorHandlers := set_add handler (mock_errorHandlers t)\<rparr>"

definition mock_offError :: "error_handler \<Rightarrow> 'p MockTransportAdapter \<Rightarrow> 'p MockTransportAdapter" where
  "mock_offError handler t = t\<lparr>mock_errorHandlers := set_delete handler (mock_errorHandlers t)\<rparr>"

text \<open>A run of \<^verbatim>\<open>send\<close> calls, stopping at the first that throws.\<close>

fun mock_send_all :: "'p SwarmMessage list \<Rightarrow> 'p MockTransportAdapter stmt" where
  "mock_send_all [] t = (None, t)"
| "mock_send_all (message # rest) t =
     (case mock_send message t of (None, t') \<Rightarrow> mock_send_all rest t' | (Some e, t') \<Rightarrow> (Some e, t'))"

section \<open>The client: \<^verbatim>\<open>swarm-relay.ts\<close>\<close>

text \<open>
  \<^verbatim>\<open>generateId\<close> reads the clock and the random number generator. Both readings are inputs:
  the clock as a number of milliseconds, the random number as the string that
  \<^verbatim>\<open>Math.random().toString(36)\<close> returns, of which \<^verbatim>\<open>slice(2, 11)\<close> keeps at most nine
  characters from the third on. The decimal numeral of the clock reading is \<open>show_nat\<close>.
\<close>

definition digit_char :: "nat \<Rightarrow> char" where
  "digit_char d = char_of (48 + d)"

function show_nat :: "nat \<Rightarrow> string" where
  "show_nat n = (if n < 10 then [digit_char n] else show_nat (n div 10) @ [digit_char (n mod 10)])"
  by pat_completeness auto
termination
  by (relation "measure (\<lambda>n. n)") auto

declare show_nat.simps [simp del]

definition generateId :: "nat \<Rightarrow> string \<Rightarrow> string" where
  "generateId now random36 = show_nat now @ ''-'' @ take 9 (drop 2 random36)"

text \<open>
  What one call of \<^verbatim>\<open>send\<close> or \<^verbatim>\<open>broadcast\<close> reads from its environment, in the order of
  the reads: \<^verbatim>\<open>Date.now()\<close> and \<^verbatim>\<open>Math.random()\<close> inside \<^verbatim>\<open>generateId\<close>, then \<^verbatim>\<open>Date.now()\<close>
  for the timestamp.
\<close>

record readings =
  id_clock :: nat
  id_random :: string
  timestamp_clock :: nat

text \<open>
  Subscribers are callbacks of the application, compared by identity: they are numbered.
  What a callback does when it is called is given by a behaviour function from the call
  (the callback with its arguments) to the error it throws, if any. A callback is taken
  not to call back into the relay while a message is being dispatched.

  The logger and the two optional callbacks of the options (\<^verbatim>\<open>onStateChange\<close>, \<^verbatim>\<open>onError\<close>)
  are observers: the relay record keeps what was passed to them, in order (\<open>logged\<close>,
  \<open>stateChanges\<close>, \<open>errorsReported\<close>), and likewise the calls made to subscribers
  (\<open>invoked\<close>). A log entry stands for the message text and arguments of one logger call.

  The transport of the relay is the test double of the previous section, the one the
  relay's unit tests plug in.
\<close>

type_synonym handler = nat

datatype 'p call =
  WildcardCall handler string 'p "'p SwarmMessage"
| HandlerCall handler 'p "'p SwarmMessage"

datatype level = Debug | Info | Warn | ErrorLevel

datatype 'p log_entry =
  AlreadyConnected
| ConnectingAs string
| ConnectedAs string
| ConnectionFailedWith error
| DisconnectingLog string
| DisconnectedLog string
| Sending string string "'p SwarmMessage"
| Broadcasting string "'p SwarmMessage"
| SubscribedTo string
| UnsubscribedFrom string
| SubscribedWildcard
| UnsubscribedWildcard
| Received string string "'p SwarmMessage"
| WildcardHandlerThrew error
| HandlerThrew string error
| TransportErrorLog error

fun level_of :: "'p log_entry \<Rightarrow> level" where
  "level_of AlreadyConnected = Warn"
| "level_of (ConnectingAs c) = Info"
| "level_of (ConnectedAs c) = Info"
| "level_of (ConnectionFailedWith e) = ErrorLevel"
| "level_of (DisconnectingLog c) = Info"
| "level_of (DisconnectedLog c) = Info"
| "level_of (Sending ev t m) = Debug"
| "level_of (Broadcasting ev m) = Debug"
| "level_of (SubscribedTo ev) = Debug"
| "level_of (UnsubscribedFrom ev) = Debug"
| "level_of SubscribedWildcard = Debug"
| "level_of UnsubscribedWildcard = Debug"
| "level_of (Received ev s m) = Debug"
| "level_of (WildcardHandlerThrew e) = ErrorLevel"
| "level_of (HandlerThrew ev e) = ErrorLevel"
| "level_of (TransportErrorLog e) = ErrorLevel"

record 'p SwarmRelay =
  clientId :: string
  transport :: "'p MockTransportAdapter"
  handlers :: "(string \<times> handler list) list"
  wildcardHandlers :: "handler list"
  relay_state :: ConnectionState
  logged :: "'p log_entry list"
  stateChanges :: "ConnectionState list"
  errorsReported :: "error list"
  invoked :: "'p call list"

definition relay_new :: "string \<Rightarrow> 'p MockTransportAdapter \<Rightarrow> 'p SwarmRelay" where
  "relay_new cid t = \<lparr>clientId = cid, transport = t, handlers = [], wildcardHandlers = [],
     relay_state = Disconnected, logged = [], stateChanges = [], errorsReported = [], invoked = []\<rparr>"

definition log :: "'p log_entry \<Rightarrow> 'p SwarmRelay \<Rightarrow> 'p SwarmRelay" where
  "log entry r = r\<lparr>logged := logged r @ [entry]\<rparr>"

definition setState :: "ConnectionState \<Rightarrow> 'p SwarmRelay \<Rightarrow> 'p SwarmRelay" where
  "setState s r = r\<lparr>relay_state := s, stateChanges := stateChanges r @ [s]\<rparr>"

definition assertConnected :: "'p SwarmRelay stmt" where
  "assertConnected r =
     (if relay_state r \<noteq> Connected
      then (Some (SwarmRelayError ''Not connected. Call connect() first.'' NotConnected None), r)
      else (None, r))"

subsection \<open>Lifecycle\<close>

text \<open>
  \<^verbatim>\<open>connect\<close> is \<^verbatim>\<open>async\<close>. \<open>connect_begin\<close> is the part that runs when it is called, up to
  the \<^verbatim>\<open>await\<close>; it either returns at once (already connected) or leaves the outcome of
  \<^verbatim>\<open>transport.connect\<close> to be awaited. \<open>connect_resume\<close> is the part that runs once that
  outcome is there. \<open>connect\<close> is a call that is awaited with nothing else running in
  between; the error it returns is the rejection of its promise.
\<close>

datatype suspended = Returned | Awaiting "error option"

definition connect_begin :: "'p SwarmRelay \<Rightarrow> suspended \<times> 'p SwarmRelay" where
  "connect_begin r =
     (if relay_state r = Connected then (Returned, log AlreadyConnected r)
      else
        let r1 = log (ConnectingAs (clientId r)) (setState Connecting r);
            t1 = mock_onError RelayHandleError (mock_onMessage RelayHandleMessage (transport r1));
            (outcome, t2) = mock_connect (clientId r1) t1
        in (Awaiting outcome, r1\<lparr>transport := t2\<rparr>))"

definition connect_resume :: "error option \<Rightarrow> 'p SwarmRelay stmt" where
  "connect_resume outcome r =
     (case outcome of
        None \<Rightarrow> (None, log (ConnectedAs (clientId r)) (setState Connected r))
      | Some e \<Rightarrow>
          let r1 = setState Error r;
              relayError = (case e of
                              SwarmRelayError msg code cause \<Rightarrow> e
                            | JsError msg \<Rightarrow> SwarmRelayError ''Connection failed'' ConnectionFailed (Some e));
              r2 = log (ConnectionFailedWith relayError) r1
          in (Some relayError, r2\<lparr>errorsReported := errorsReported r2 @ [relayError]\<rparr>))"

definition connect :: "'p SwarmRelay stmt" where
  "connect r =
     (case connect_begin r of
        (Returned, r') \<Rightarrow> (None, r')
      | (Awaiting outcome, r') \<Rightarrow> connect_resume outcome r')"

definition disconnect :: "'p SwarmRelay \<Rightarrow> 'p SwarmRelay" where
  "disconnect r =
     (if relay_state r = Disconnected then r
      else
        let r1 = log (DisconnectingLog (clientId r)) r;
            t1 = mock_disconnect (mock_offError RelayHandleError (mock_offMessage RelayHandleMessage (transport r1)));
            r2 = r1\<lparr>transport := t1, handlers := [], wildcardHandlers := []\<rparr>
        in log (DisconnectedLog (clientId r)) (setState Disconnected r2))"

subsection \<open>Sending\<close>

definition send :: "readings \<Rightarrow> string \<Rightarrow> string \<Rightarrow> 'p \<Rightarrow> 'p SwarmRelay stmt" where
  "send env tgt ev pl r =
     (case assertConnected r of
        (Some e, r') \<Rightarrow> (Some e, r')
      | (None, r') \<Rightarrow>
          let message = \<lparr>id' = generateId (id_clock env) (id_random env), source = clientId r',
                          target = Some tgt, event = ev, payload = pl,
                          timestamp = timestamp_clock env\<rparr>;
              r1 = log (Sending ev tgt message) r';
              (thrown, t) = mock_send message (transport r1)
          in (thrown, r1\<lparr>transport := t\<rparr>))"

definition broadcast :: "readings \<Rightarrow> string \<Rightarrow> 'p \<Rightarrow> 'p SwarmRelay stmt" where
  "broadcast env ev pl r =
     (case assertConnected r of
        (Some e, r') \<Rightarrow> (Some e, r')
      | (None, r') \<Rightarrow>
          let message = \<lparr>id' = generateId (id_clock env) (id_random env), source = clientId r',
                          target = None, event = ev, payload = pl,
                          timestamp = timestamp_clock env\<rparr>;
              r1 = log (Broadcasting ev message) r';
              (thrown, t) = mock_send message (transport r1)
          in (thrown, r1\<lparr>transport := t\<rparr>))"

subsection \<open>Subscribing\<close>

text \<open>
  \<^verbatim>\<open>on\<close> and \<^verbatim>\<open>onAny\<close> also return a closure that calls \<^verbatim>\<open>off\<close> or \<^verbatim>\<open>offAny\<close> with the
  same arguments; the closure is not part of the state.
\<close>

definition handlers_of :: "'p SwarmRelay \<Rightarrow> string \<Rightarrow> handler list" where
  "handlers_of r ev = (case map_get (handlers r) ev of None \<Rightarrow> [] | Some eventHandlers \<Rightarrow> eventHandlers)"

definition on :: "string \<Rightarrow> handler \<Rightarrow> 'p SwarmRelay \<Rightarrow> 'p SwarmRelay" where
  "on ev handler r =
     (let hs = (case map_get (handlers r) ev of
                  None \<Rightarrow> map_set ev [] (handlers r)
                | Some eventHandlers \<Rightarrow> handlers r);
          hs' = (case map_get hs ev of
                   None \<Rightarrow> hs
                 | Some eventHandlers \<Rightarrow> map_set ev (set_add handler eventHandlers) hs)
      in log (SubscribedTo ev) (r\<lparr>handlers := hs'\<rparr>))"

definition off :: "string \<Rightarrow> handler \<Rightarrow> 'p SwarmRelay \<Rightarrow> 'p SwarmRelay" where
  "off ev handler r =
     (case map_get (handlers r) ev of
        None \<Rightarrow> r
      | Some eventHandlers \<Rightarrow>
          let remaining = set_delete handler eventHandlers;
              hs = map_set ev remaining (handlers r);
              hs' = (if length remaining = 0 then map_delete ev hs else hs)
          in log (UnsubscribedFrom ev) (r\<lparr>handlers := hs'\<rparr>))"

definition onAny :: "handler \<Rightarrow> 'p SwarmRelay \<Rightarrow> 'p SwarmRelay" where
  "onAny handler r = log SubscribedWildcard (r\<lparr>wildcardHandlers := set_add handler (wildcardHandlers r)\<rparr>)"

definition offAny :: "handler \<Rightarrow> 'p SwarmRelay \<Rightarrow> 'p SwarmRelay" where
  "offAny handler r = log UnsubscribedWildcard (r\<lparr>wildcardHandlers := set_delete handler (wildcardHandlers r)\<rparr>)"

text \<open>A run of subscriptions, in the order in which the application makes them.\<close>

datatype subscription = On string handler | OnAny handler

fun subscribe :: "subscription \<Rightarrow> 'p SwarmRelay \<Rightarrow> 'p SwarmRelay" where
  "subscribe (On ev handler) r = on ev handler r"
| "subscribe (OnAny handler) r = onAny handler r"

fun subscribe_all :: "subscription list \<Rightarrow> 'p SwarmRelay \<Rightarrow> 'p SwarmRelay" where
  "subscribe_all [] r = r"
| "subscribe_all (s # ss) r = subscribe_all ss (subscribe s r)"

text \<open>
  The subscribers a run of subscriptions leaves, in subscription order: each handler
  stands where it was first subscribed (a \<^verbatim>\<open>Set\<close> ignores a second \<^verbatim>\<open>add\<close>).
\<close>

fun in_order :: "'a list \<Rightarrow> 'a list \<Rightarrow> 'a list" where
  "in_order acc [] = acc"
| "in_order acc (x # xs) = in_order (set_add x acc) xs"

fun wildcard_subscribers :: "subscription list \<Rightarrow> handler list" where
  "wildcard_subscribers [] = []"
| "wildcard_subscribers (OnAny h # ss) = h # wildcard_subscribers ss"
| "wildcard_subscribers (On ev h # ss) = wildcard_subscribers ss"

fun event_subscribers :: "string \<Rightarrow> subscription list \<Rightarrow> handler list" where
  "event_subscribers ev [] = []"
| "event_subscribers ev (On ev' h # ss) =
     (if ev' = ev then h # event_subscribers ev ss else event_subscribers ev ss)"
| "event_subscribers ev (OnAny h # ss) = event_subscribers ev ss"

subsection \<open>Dispatch\<close>

text \<open>Calling a subscriber: the call is recorded, and it throws what the behaviour says.\<close>

definition invoke :: "('p call \<Rightarrow> error option) \<Rightarrow> 'p call \<Rightarrow> 'p SwarmRelay stmt" where
  "invoke behaviour c r = (behaviour c, r\<lparr>invoked := invoked r @ [c]\<rparr>)"

definition log_stmt :: "'p log_entry \<Rightarrow> 'p SwarmRelay stmt" where
  "log_stmt entry r = (None, log entry r)"

definition relay_handleMessage :: "('p call \<Rightarrow> error option) \<Rightarrow> 'p SwarmMessage \<Rightarrow> 'p SwarmRelay stmt" where
  "relay_handleMessage behaviour message =
     and_then (log_stmt (Received (event message) (source message) message))
       (and_then
          (\<lambda>r. for_each
             (\<lambda>handler. try_catch
                (invoke behaviour (WildcardCall handler (event message) (payload message) message))
                (\<lambda>error. log_stmt (WildcardHandlerThrew error)))
             (wildcardHandlers r) r)
          (\<lambda>r. case map_get (handlers r) (event message) of
             None \<Rightarrow> (None, r)
           | Some eventHandlers \<Rightarrow>
               for_each
                 (\<lambda>handler. try_catch
                    (invoke behaviour (HandlerCall handler (payload message) message))
                    (\<lambda>error. log_stmt (HandlerThrew (event message) error)))
                 eventHandlers r))"

definition relay_handleError :: "error \<Rightarrow> 'p SwarmRelay \<Rightarrow> 'p SwarmRelay" where
  "relay_handleError e r = (let r1 = log (TransportErrorLog e) r in r1\<lparr>errorsReported := errorsReported r1 @ [e]\<rparr>)"

text \<open>
  \<^verbatim>\<open>MockTransportAdapter.simulateMessage\<close>, for the transport of a relay: every registered
  message handler is called, with no \<^verbatim>\<open>try\<close> around the call. A foreign handler throws
  what \<open>foreign\<close> says.
\<close>

definition simulateMessage ::
  "('p call \<Rightarrow> error option) \<Rightarrow> (nat \<Rightarrow> error option) \<Rightarrow> 'p SwarmMessage \<Rightarrow> 'p SwarmRelay stmt" where
  "simulateMessage behaviour foreign message r =
     for_each
       (\<lambda>handler. case handler of
          RelayHandleMessage \<Rightarrow> relay_handleMessage behaviour message
        | ForeignMessageHandler n \<Rightarrow> (\<lambda>r'. (foreign n, r')))
       (mock_messageHandlers (transport r)) r"

subsection \<open>A relay on a test-double transport, as the unit tests set it up\<close>

definition test_relay :: "string SwarmRelay" where
  "test_relay = relay_new ''test-app'' mock_new"

definition connected_relay :: "string SwarmRelay" where
  "connected_relay = snd (connect test_relay)"

definition readings0 :: readings where
  "readings0 = \<lparr>id_clock = 5, id_random = ''0.4fzyo82mvyr'', timestamp_clock = 5\<rparr>"

definition failing_transport :: "string MockTransportAdapter" where
  "failing_transport = mock_new\<lparr>sendError := Some (JsError ''send boom'')\<rparr>"

text \<open>
  Subscribers as in the unit tests of error handling: a wildcard handler 3 and two
  handlers 1 and 2 of \<^verbatim>\<open>user:login\<close>, of which the wildcard handler and handler 1 throw.
\<close>

definition subscribed_relay :: "string SwarmRelay" where
  "subscribed_relay = subscribe_all [On ''user:login'' 1, OnAny 3, On ''user:login'' 2] connected_relay"

definition login :: "string SwarmMessage" where
  "login = \<lparr>id' = ''1'', source = ''other'', target = None, event = ''user:login'',
             payload = ''u1'', timestamp = 1\<rparr>"

fun booms :: "string call \<Rightarrow> error option" where
  "booms (WildcardCall h ev pl m) = (if h = 3 then Some (JsError ''wildcard boom'') else None)"
| "booms (HandlerCall h pl m) = (if h = 1 then Some (JsError ''handler boom'') else None)"

section \<open>The SharedWorker transport: \<^verbatim>\<open>shared-worker-transport.ts\<close>\<close>

text \<open>
  The transport lives among browser objects that call back into it: the worker and its
  port, the timer started by \<^verbatim>\<open>setTimeout\<close>, and the promise that \<^verbatim>\<open>handshake\<close> returns.
  They are part of the state. Every \<^verbatim>\<open>new SharedWorker(...)\<close> is a new worker with one
  new port; both carry the same number. Every call of \<^verbatim>\<open>handshake\<close> creates one timer and
  one promise, kept together under the number of the call. An armed timer carries its
  delay in milliseconds. A promise is settled once:
  \<^verbatim>\<open>resolve\<close> and \<^verbatim>\<open>reject\<close> on a settled promise do nothing, and \<^verbatim>\<open>clearTimeout\<close> on a
  timer that has fired or was cleared does nothing.
\<close>

datatype timer = Armed nat | Cleared | Fired

datatype promise = Pending | Resolved | Rejected error

record handshake_closure =
  hs_timeout :: timer
  hs_promise :: promise

definition clearTimeout :: "handshake_closure \<Rightarrow> handshake_closure" where
  "clearTimeout c = (case hs_timeout c of Armed delay \<Rightarrow> c\<lparr>hs_timeout := Cleared\<rparr> | _ \<Rightarrow> c)"

definition reject :: "error \<Rightarrow> handshake_closure \<Rightarrow> handshake_closure" where
  "reject e c = (if hs_promise c = Pending then c\<lparr>hs_promise := Rejected e\<rparr> else c)"

definition resolve :: "handshake_closure \<Rightarrow> handshake_closure" where
  "resolve c = (if hs_promise c = Pending then c\<lparr>hs_promise := Resolved\<rparr> else c)"

text \<open>
  What is installed as \<^verbatim>\<open>port.onmessage\<close>: the arrow function of a \<^verbatim>\<open>handshake\<close> call, or
  the permanent \<^verbatim>\<open>this.handlePortMessage\<close>.
\<close>

datatype onmessage = HandshakeOnMessage nat | HandlePortMessage

record 'p SharedWorkerTransport =
  swt_worker :: "nat option"
  swt_port :: "nat option"
  swt_messageHandlers :: "message_handler list"
  swt_errorHandlers :: "error_handler list"
  swt_state :: ConnectionState
  handshakeAbort :: "nat option"
  port_onmessage :: "nat \<Rightarrow> onmessage option"
  port_onmessageerror :: "nat \<Rightarrow> bool"
  port_started :: "nat \<Rightarrow> bool"
  port_closed :: "nat \<Rightarrow> bool"
  worker_onerror :: "nat \<Rightarrow> nat option"
  handshakes :: "nat \<Rightarrow> handshake_closure"
  next_worker :: nat
  next_handshake :: nat
  posted :: "(nat \<times> 'p wire) list"
  delivered :: "(message_handler \<times> 'p SwarmMessage) list"
  emitted :: "(error_handler \<times> error) list"

definition swt_new :: "'p SharedWorkerTransport" where
  "swt_new = \<lparr>swt_worker = None, swt_port = None, swt_messageHandlers = [], swt_errorHandlers = [],
     swt_state = Disconnected, handshakeAbort = None,
     port_onmessage = (\<lambda>_. None), port_onmessageerror = (\<lambda>_. False),
     port_started = (\<lambda>_. False), port_closed = (\<lambda>_. False), worker_onerror = (\<lambda>_. None),
     handshakes = (\<lambda>_. \<lparr>hs_timeout = Cleared, hs_promise = Pending\<rparr>),
     next_worker = 0, next_handshake = 0, posted = [], delivered = [], emitted = []\<rparr>"

definition cleanup :: "'p SharedWorkerTransport \<Rightarrow> 'p SharedWorkerTransport" where
  "cleanup t = t\<lparr>swt_port := None, swt_worker := None, swt_messageHandlers := [], swt_errorHandlers := []\<rparr>"

text \<open>
  \<^verbatim>\<open>handshake(clientId)\<close>: the executor of the promise runs when \<^verbatim>\<open>handshake\<close> is called. It
  is called by \<^verbatim>\<open>connect\<close> only, right after \<^verbatim>\<open>this.worker\<close> and \<^verbatim>\<open>this.port\<close> were set, which
  are its two last arguments here. The result is the number of the new closure, whose
  promise is the one \<^verbatim>\<open>connect\<close> awaits.
\<close>

definition handshake ::
  "string \<Rightarrow> nat \<Rightarrow> nat \<Rightarrow> 'p SharedWorkerTransport \<Rightarrow> nat \<times> 'p SharedWorkerTransport" where
  "handshake cid w p t =
     (let h = next_handshake t
      in (h, t\<lparr>next_handshake := Suc h,
               handshakes := (handshakes t)(h := \<lparr>hs_timeout = Armed 5000, hs_promise = Pending\<rparr>),
               handshakeAbort := Some h,
               port_onmessage := (port_onmessage t)(p := Some (HandshakeOnMessage h)),
               port_onmessageerror := (port_onmessageerror t)(p := True),
               worker_onerror := (worker_onerror t)(w := Some h),
               port_started := (port_started t)(p := True),
               posted := posted t @ [(p, Register cid)]\<rparr>))"

text \<open>
  \<^verbatim>\<open>connect\<close> is \<^verbatim>\<open>async\<close>. \<open>swt_connect_begin\<close> is the part that runs when it is called:
  it ends with the promise of \<^verbatim>\<open>connect\<close> settled (\<open>Settled\<close>, with the error if rejected)
  or with \<^verbatim>\<open>connect\<close> suspended at \<^verbatim>\<open>await this.handshake(clientId)\<close>. Whether
  \<^verbatim>\<open>SharedWorker\<close> is defined, and the error that creating the worker throws, if any, are
  inputs. \<open>swt_connect_resume\<close> is the rest of \<^verbatim>\<open>connect\<close>, which runs once the awaited
  promise is settled; while that promise is pending there is nothing to run.
\<close>

datatype connect_status = Settled "error option" | AwaitingHandshake nat

definition connection_error :: "error \<Rightarrow> error" where
  "connection_error e =
     (case e of
        SwarmRelayError msg code cause \<Rightarrow> e
      | JsError msg \<Rightarrow> SwarmRelayError ''Failed to connect to SharedWorker'' ConnectionFailed (Some e))"

definition swt_connect_begin ::
  "bool \<Rightarrow> error option \<Rightarrow> string \<Rightarrow> 'p SharedWorkerTransport \<Rightarrow> connect_status \<times> 'p SharedWorkerTransport" where
  "swt_connect_begin sharedWorkerDefined constructionError cid t =
     (if swt_state t = Connected then (Settled None, t)
      else if \<not> sharedWorkerDefined then
        (Settled (Some (SwarmRelayError
           ''SharedWorker is not supported in this environment. Consider using BroadcastChannelTransport as a fallback.''
           WorkerNotSupported None)), t)
      else
        let t1 = t\<lparr>swt_state := Connecting\<rparr>
        in case constructionError of
             Some e \<Rightarrow> (Settled (Some (connection_error e)), cleanup (t1\<lparr>swt_state := Error\<rparr>))
           | None \<Rightarrow>
               let w = next_worker t1;
                   t2 = t1\<lparr>next_worker := Suc w, swt_worker := Some w, swt_port := Some w\<rparr>;
                   (h, t3) = handshake cid w w t2
               in (AwaitingHandshake h, t3))"

definition swt_connect_resume ::
  "nat \<Rightarrow> 'p SharedWorkerTransport \<Rightarrow> (error option \<times> 'p SharedWorkerTransport) option" where
  "swt_connect_resume h t =
     (case hs_promise (handshakes t h) of
        Pending \<Rightarrow> None
      | Resolved \<Rightarrow> Some (None, t\<lparr>swt_state := Connected\<rparr>)
      | Rejected e \<Rightarrow> Some (Some (connection_error e), cleanup (t\<lparr>swt_state := Error\<rparr>)))"

text \<open>
  \<^verbatim>\<open>disconnect()\<close>. \<^verbatim>\<open>this.handshakeAbort\<close>, when set, is the closure of one \<^verbatim>\<open>handshake\<close>
  call: \<^verbatim>\<open>clearTimeout(timeout); reject(new SwarmRelayError('Connection aborted', ...))\<close>.
\<close>

definition swt_disconnect :: "'p SharedWorkerTransport \<Rightarrow> 'p SharedWorkerTransport" where
  "swt_disconnect t =
     (let t1 = (case handshakeAbort t of
                  Some h \<Rightarrow>
                    t\<lparr>handshakes := (handshakes t)(h :=
                         reject (SwarmRelayError ''Connection aborted'' ConnectionFailed None)
                           (clearTimeout (handshakes t h))),
                      handshakeAbort := None\<rparr>
                | None \<Rightarrow> t);
          t2 = (case swt_port t1 of
                  Some p \<Rightarrow> t1\<lparr>posted := posted t1 @ [(p, Disconnect)],
                               port_closed := (port_closed t1)(p := True)\<rparr>
                | None \<Rightarrow> t1)
      in (cleanup t2)\<lparr>swt_state := Disconnected\<rparr>)"

definition swt_send :: "'p SwarmMessage \<Rightarrow> 'p SharedWorkerTransport stmt" where
  "swt_send message t =
     (case swt_port t of
        None \<Rightarrow> (Some (SwarmRelayError ''Cannot send message: not connected'' NotConnected None), t)
      | Some p \<Rightarrow>
          if swt_state t \<noteq> Connected
          then (Some (SwarmRelayError ''Cannot send message: not connected'' NotConnected None), t)
          else (None, t\<lparr>posted := posted t @ [(p, Message message)]\<rparr>))"

text \<open>
  The callbacks that the browser runs. The timer of closure \<open>h\<close> fires only while it is
  armed. A message or an error event goes to whatever handler the port or worker has at
  that time. Inside the handshake's \<^verbatim>\<open>onmessage\<close>, \<^verbatim>\<open>this.port!\<close> is read when the event
  arrives: if the field is \<^verbatim>\<open>null\<close> by then, the assignment throws a TypeError and
  \<^verbatim>\<open>resolve\<close> is not reached.
\<close>

definition timeout_fires :: "nat \<Rightarrow> 'p SharedWorkerTransport \<Rightarrow> 'p SharedWorkerTransport" where
  "timeout_fires h t =
     (case hs_timeout (handshakes t h) of
        Armed delay \<Rightarrow>
          t\<lparr>handshakeAbort := None,
            handshakes := (handshakes t)(h :=
              reject (SwarmRelayError ''SharedWorker registration timed out'' ConnectionFailed None)
                ((handshakes t h)\<lparr>hs_timeout := Fired\<rparr>))\<rparr>
      | _ \<Rightarrow> t)"

definition handlePortMessage :: "'p wire \<Rightarrow> 'p SharedWorkerTransport \<Rightarrow> 'p SharedWorkerTransport" where
  "handlePortMessage d t =
     (case d of
        Message message \<Rightarrow> t\<lparr>delivered := delivered t @ map (\<lambda>handler. (handler, message)) (swt_messageHandlers t)\<rparr>
      | _ \<Rightarrow> t)"

definition port_receives :: "nat \<Rightarrow> 'p wire \<Rightarrow> 'p SharedWorkerTransport stmt" where
  "port_receives p d t =
     (case port_onmessage t p of
        None \<Rightarrow> (None, t)
      | Some HandlePortMessage \<Rightarrow> (None, handlePortMessage d t)
      | Some (HandshakeOnMessage h) \<Rightarrow>
          (case d of
             Registered c \<Rightarrow>
               let t1 = t\<lparr>handshakes := (handshakes t)(h := clearTimeout (handshakes t h)),
                          handshakeAbort := None\<rparr>
               in (case swt_port t1 of
                     None \<Rightarrow> (Some (JsError ''TypeError''), t1)
                   | Some q \<Rightarrow>
                       (None, t1\<lparr>port_onmessage := (port_onmessage t1)(q := Some HandlePortMessage),
                                 handshakes := (handshakes t1)(h := resolve (handshakes t1 h))\<rparr>))
           | _ \<Rightarrow> (None, t)))"

definition emitError :: "error \<Rightarrow> 'p SharedWorkerTransport \<Rightarrow> 'p SharedWorkerTransport" where
  "emitError e t = t\<lparr>emitted := emitted t @ map (\<lambda>handler. (handler, e)) (swt_errorHandlers t)\<rparr>"

definition port_messageerror :: "nat \<Rightarrow> 'p SharedWorkerTransport \<Rightarrow> 'p SharedWorkerTransport" where
  "port_messageerror p t =
     (if port_onmessageerror t p
      then emitError (SwarmRelayError ''Message deserialization error'' TransportError None) t
      else t)"

definition worker_errors :: "nat \<Rightarrow> string \<Rightarrow> 'p SharedWorkerTransport \<Rightarrow> 'p SharedWorkerTransport" where
  "worker_errors w msg t =
     (case worker_onerror t w of
        None \<Rightarrow> t
      | Some h \<Rightarrow>
          t\<lparr>handshakes := (handshakes t)(h :=
               reject (SwarmRelayError (''SharedWorker error: '' @ msg) TransportError None)
                 (clearTimeout (handshakes t h))),
            handshakeAbort := None,
            swt_state := Error\<rparr>)"

subsection \<open>A new transport whose \<^verbatim>\<open>connect('shell')\<close> is waiting for the hub's acknowledgment\<close>

definition connecting_transport :: "string SharedWorkerTransport" where
  "connecting_transport = snd (swt_connect_begin True None ''shell'' swt_new)"

text \<open>The same transport after a second \<^verbatim>\<open>connect('shell')\<close>, called while the first is waiting.\<close>

definition twice_connecting_transport :: "string SharedWorkerTransport" where
  "twice_connecting_transport = snd (swt_connect_begin True None ''shell'' connecting_transport)"

section \<open>Properties of the hub\<close>

lemma forwardBroadcast_filter:
  "forwardBroadcast m ps = map (\<lambda>kv. (snd kv, Message m)) (filter (\<lambda>kv. fst kv \<noteq> source m) ps)"
  by (induction ps) auto

lemma map_set_keys: "fst ` set (map_set k v m) = insert k (fst ` set m)"
proof (induction m)
  case Nil
  show ?case by simp
next
  case (Cons kv m)
  obtain k' v' where kv: "kv = (k', v')" by (cases kv)
  show ?case
  proof (cases "k' = k")
    case True
    with kv show ?thesis by simp
  next
    case False
    with kv Cons.IH show ?thesis by (simp add: insert_commute)
  qed
qed

lemma map_set_distinct: "distinct (map fst m) \<Longrightarrow> distinct (map fst (map_set k v m))"
proof (induction m)
  case Nil
  show ?case by simp
next
  case (Cons kv m)
  obtain k' v' where kv: "kv = (k', v')" by (cases kv)
  from Cons.prems kv have d: "distinct (map fst m)" and n: "k' \<notin> fst ` set m" by auto
  show ?case
  proof (cases "k' = k")
    case True
    with Cons.prems kv show ?thesis by simp
  next
    case False
    with n have "k' \<notin> fst ` set (map_set k v m)" by (simp add: map_set_keys)
    with False kv Cons.IH [OF d] show ?thesis by simp
  qed
qed

lemma map_delete_distinct: "distinct (map fst m) \<Longrightarrow> distinct (map fst (map_delete k m))"
  by (simp add: map_delete_def distinct_map_filter)

lemma forget_client_distinct:
  "distinct (map fst (ports h)) \<Longrightarrow> distinct (map fst (ports (forget_client p h)))"
  by (simp add: forget_client_def map_delete_distinct split: option.splits)

lemma hub_step_distinct:
  "distinct (map fst (ports h)) \<Longrightarrow> distinct (map fst (ports (snd (hub_step e h))))"
proof (cases e)
  case (PortMessage p d)
  assume dist: "distinct (map fst (ports h))"
  show ?thesis
  proof (cases d)
    case (Register c)
    with PortMessage dist show ?thesis by (simp add: map_set_distinct)
  next
    case Disconnect
    with PortMessage dist show ?thesis by (simp add: forget_client_distinct)
  next
    case (Message m)
    with PortMessage dist show ?thesis by (simp split: option.splits)
  next
    case (Registered c)
    with PortMessage dist show ?thesis by simp
  next
    case (Unknown ty)
    with PortMessage dist show ?thesis by simp
  qed
next
  case (PortMessageError p)
  assume "distinct (map fst (ports h))"
  with PortMessageError show ?thesis by (simp add: hub_handleError_def forget_client_distinct)
qed

lemma hub_run_distinct:
  "distinct (map fst (ports h)) \<Longrightarrow> distinct (map fst (ports (hub_run es h)))"
  by (induction es arbitrary: h) (simp_all add: hub_step_distinct)

lemma map_set_get_upd: "map_get (map_set k v m) = (map_get m)(k \<mapsto> v)"
proof (induction m)
  case Nil
  show ?case by (rule ext) (simp add: map_get_def)
next
  case (Cons kv m)
  obtain k' v' where kv: "kv = (k', v')" by (cases kv)
  have ih: "map_of (map_set k v m) = (map_of m)(k \<mapsto> v)"
    using Cons.IH by (simp add: map_get_def fun_eq_iff)
  show ?case
  proof (cases "k' = k")
    case True
    with kv show ?thesis by (simp add: map_get_def fun_eq_iff)
  next
    case False
    with kv ih show ?thesis by (simp add: map_get_def fun_eq_iff)
  qed
qed

subsection \<open>Broadcast\<close>

lemma twice_registered_hub_ports:
  "ports twice_registered_hub = [(''shell'', 1), (''admin'', 1), (''cart'', 2)]"
  by (simp add: twice_registered_hub_def hub_init_def)

text \<open>
  Claim C1, as stated, on a hub whose port 1 is registered under \<^verbatim>\<open>shell\<close> and under
  \<^verbatim>\<open>admin\<close>: a broadcast that port 1 sends with source \<^verbatim>\<open>shell\<close> is posted back to port 1,
  through the entry for \<^verbatim>\<open>admin\<close>. The hub compares client ids, not ports: the sender's own
  endpoint, though registered under \<^verbatim>\<open>envelope.source\<close>, receives its broadcast.
\<close>

theorem broadcast_returns_to_twice_registered_sender:
  "target (envelope None) = None
   \<and> source (envelope None) = ''shell''
   \<and> (''shell'', 1) \<in> set (ports twice_registered_hub)
   \<and> hub_handleMessage 1 (Message (envelope None)) twice_registered_hub =
       ([(1, Message (envelope None)), (2, Message (envelope None))], twice_registered_hub)
   \<and> 1 \<in> fst ` set (fst (hub_handleMessage 1 (Message (envelope None)) twice_registered_hub))"
proof -
  have t: "target (envelope None) = None" and s: "source (envelope None) = ''shell''"
    by (simp_all add: envelope_def)
  have posts: "hub_handleMessage 1 (Message (envelope None)) twice_registered_hub =
       ([(1, Message (envelope None)), (2, Message (envelope None))], twice_registered_hub)"
    using t s by (simp add: forwardBroadcast_filter twice_registered_hub_ports)
  have "1 \<in> fst ` set (fst (hub_handleMessage 1 (Message (envelope None)) twice_registered_hub))"
    unfolding posts by simp
  with t s posts show ?thesis by (simp add: twice_registered_hub_ports)
qed

text \<open>
  Claim C1, amended. When the hub routes an envelope whose \<^verbatim>\<open>target\<close> is absent, it posts the
  envelope, unchanged, once for every registry entry whose client id differs from
  \<^verbatim>\<open>envelope.source\<close>, in registry order, and to nothing else; the registry stays as it
  is. In particular an endpoint that is registered under \<^verbatim>\<open>envelope.source\<close> (and under no
  other client id) receives nothing.
\<close>

theorem broadcast_reaches_all_but_source:
  assumes "target m = None"
  shows "hub_handleMessage p (Message m) h =
           (map (\<lambda>kv. (snd kv, Message m)) (filter (\<lambda>kv. fst kv \<noteq> source m) (ports h)), h)
         \<and> (\<forall>q. (source m, q) \<in> set (ports h) \<and> (\<forall>c. (c, q) \<in> set (ports h) \<longrightarrow> c = source m)
                \<longrightarrow> q \<notin> fst ` set (fst (hub_handleMessage p (Message m) h)))"
proof -
  have posts: "hub_handleMessage p (Message m) h =
      (map (\<lambda>kv. (snd kv, Message m)) (filter (\<lambda>kv. fst kv \<noteq> source m) (ports h)), h)"
    using assms by (simp add: forwardBroadcast_filter)
  have "q \<notin> fst ` set (fst (hub_handleMessage p (Message m) h))"
    if only: "\<forall>c. (c, q) \<in> set (ports h) \<longrightarrow> c = source m" for q
  proof
    assume "q \<in> fst ` set (fst (hub_handleMessage p (Message m) h))"
    then obtain kv where "kv \<in> set (ports h)" and "fst kv \<noteq> source m" and "snd kv = q"
      unfolding posts by auto
    then have "(fst kv, q) \<in> set (ports h)" by auto
    with only have "fst kv = source m" by blast
    with \<open>fst kv \<noteq> source m\<close> show False by contradiction
  qed
  with posts show ?thesis by blast
qed

theorem broadcast_reaches_all_but_source_witness:
  "target (envelope None) = None
   \<and> hub_handleMessage 1 (Message (envelope None)) hub3 =
       ([(2, Message (envelope None)), (3, Message (envelope None))], hub3)
   \<and> (''shell'', 1) \<in> set (ports hub3)
   \<and> 1 \<notin> fst ` set (fst (hub_handleMessage 1 (Message (envelope None)) hub3))"
proof -
  have t: "target (envelope None) = None" by (simp add: envelope_def)
  have only: "(source (envelope None), 1) \<in> set (ports hub3)
      \<and> (\<forall>c. (c, 1) \<in> set (ports hub3) \<longrightarrow> c = source (envelope None))"
    by (simp add: envelope_def hub3_def)
  from broadcast_reaches_all_but_source [OF t, of 1 hub3] only
  have "hub_handleMessage 1 (Message (envelope None)) hub3 =
          (map (\<lambda>kv. (snd kv, Message (envelope None)))
             (filter (\<lambda>kv. fst kv \<noteq> source (envelope None)) (ports hub3)), hub3)"
    and "1 \<notin> fst ` set (fst (hub_handleMessage 1 (Message (envelope None)) hub3))"
    by blast+
  moreover have "filter (\<lambda>kv. fst kv \<noteq> source (envelope None)) (ports hub3)
      = [(''cart'', 2), (''profile'', 3)]"
    by (simp add: envelope_def hub3_def)
  moreover have "(''shell'', 1) \<in> set (ports hub3)" by (simp add: hub3_def)
  ultimately show ?thesis using t by simp
qed

subsection \<open>Targeted envelopes\<close>

text \<open>
  Claim C2, as stated, at an envelope whose target is the empty string: the target is
  present and the registry has no entry for it, yet the hub forwards the envelope to every
  client but the sender. \<^verbatim>\<open>if (message.target)\<close> is false for the empty string, so the
  broadcast branch runs.
\<close>

theorem targeted_empty_string_is_broadcast:
  "target (envelope (Some [])) = Some []
   \<and> map_get (ports hub3) [] = None
   \<and> hub_handleMessage 1 (Message (envelope (Some []))) hub3 =
       ([(2, Message (envelope (Some []))), (3, Message (envelope (Some [])))], hub3)"
  by (simp add: envelope_def hub3_def map_get_def)

text \<open>
  Claim C2, amended. When the hub routes an envelope whose \<^verbatim>\<open>target\<close> is present and is
  not the empty string: if the registry has an endpoint for the target, the envelope is
  posted unchanged to that endpoint and to no other; if it has none, nothing is posted to
  anyone (so nothing reaches the sender either). The registry stays as it is.
\<close>

theorem targeted_goes_to_target_only:
  assumes "target m = Some t" and "t \<noteq> []"
  shows "hub_handleMessage p (Message m) h =
           ((case map_get (ports h) t of Some targetPort \<Rightarrow> [(targetPort, Message m)] | None \<Rightarrow> []), h)"
  using assms by (simp split: option.splits)

theorem targeted_goes_to_target_only_witness:
  "target (envelope (Some ''cart'')) = Some ''cart'' \<and> ''cart'' \<noteq> []
   \<and> hub_handleMessage 1 (Message (envelope (Some ''cart''))) hub3
       = ([(2, Message (envelope (Some ''cart'')))], hub3)
   \<and> target (envelope (Some ''nobody'')) = Some ''nobody'' \<and> ''nobody'' \<noteq> []
   \<and> hub_handleMessage 1 (Message (envelope (Some ''nobody''))) hub3 = ([], hub3)"
proof -
  have a: "target (envelope (Some ''cart'')) = Some ''cart''"
    and b: "target (envelope (Some ''nobody'')) = Some ''nobody''"
    by (simp_all add: envelope_def)
  have c: "''cart'' \<noteq> []" and d: "''nobody'' \<noteq> []" by simp_all
  have e: "map_get (ports hub3) ''cart'' = Some 2" and f: "map_get (ports hub3) ''nobody'' = None"
    by (simp_all add: hub3_def map_get_def)
  from targeted_goes_to_target_only [OF a c, of 1 hub3] targeted_goes_to_target_only [OF b d, of 1 hub3]
  show ?thesis using a b e f by simp
qed

subsection \<open>Registration\<close>

text \<open>
  Claim C3. A register request for \<open>c\<close> arriving on port \<open>p\<close> posts exactly one
  message, the acknowledgment \<^verbatim>\<open>__swarm_registered__\<close> with the same client id, to \<open>p\<close>; the
  registry afterwards maps \<open>c\<close> to \<open>p\<close> and every other client id to what it mapped to
  before. This holds for every registry, so also when \<open>c\<close> was registered already: the
  handler has no failing branch. After any sequence of events from the empty hub, no client
  id occurs twice among the registry's entries.
\<close>

theorem register_overwrites_and_acknowledges:
  "fst (hub_handleMessage p (Register c) h) = [(p, Registered c)]
   \<and> map_get (ports (snd (hub_handleMessage p (Register c) h))) = (map_get (ports h))(c \<mapsto> p)
   \<and> distinct (map fst (ports (hub_run es hub_init)))"
proof -
  have "distinct (map fst (ports hub_init))" by (simp add: hub_init_def)
  then have "distinct (map fst (ports (hub_run es hub_init)))" by (rule hub_run_distinct)
  then show ?thesis by (simp add: map_set_get_upd)
qed

text \<open>Registering a client id that is registered already: the entry is replaced where it stands.\<close>

lemma register_again_example:
  "hub_handleMessage 7 (Register ''cart'' :: string wire) hub3 =
     ([(7, Registered ''cart'')],
      hub3\<lparr>ports := [(''shell'', 1), (''cart'', 7), (''profile'', 3)],
           conn_clientId := (conn_clientId hub3)(7 := Some ''cart'')\<rparr>)"
  by (simp add: hub3_def)

section \<open>Properties of the test-double transport\<close>

lemma mock_send_all_ok:
  "sendError t = None \<Longrightarrow> mock_send_all ms t = (None, t\<lparr>sentMessages := sentMessages t @ ms\<rparr>)"
proof (induction ms arbitrary: t)
  case Nil
  show ?case by simp
next
  case (Cons m ms)
  let ?t1 = "t\<lparr>sentMessages := sentMessages t @ [m]\<rparr>"
  from Cons.prems have step: "mock_send m t = (None, ?t1)" by (simp add: mock_send_def)
  have "sendError ?t1 = None" using Cons.prems by simp
  then have "mock_send_all ms ?t1 = (None, ?t1\<lparr>sentMessages := sentMessages ?t1 @ ms\<rparr>)"
    by (rule Cons.IH)
  with step show ?case by simp
qed

text \<open>
  Claim C10. \<^verbatim>\<open>MockTransportAdapter.send\<close>: when \<^verbatim>\<open>sendError\<close> is set, the call throws
  that error and the transport, \<^verbatim>\<open>sentMessages\<close> included, is as before; when it is not
  set, the call returns and \<^verbatim>\<open>sentMessages\<close> has the message as its new last element, and
  nothing else changed. A run of such calls therefore appends the messages in the order
  in which they were sent.
\<close>

theorem mock_send_records_in_order:
  "(sendError t = Some e \<longrightarrow> mock_send m t = (Some e, t))
   \<and> (sendError t = None \<longrightarrow>
        mock_send m t = (None, t\<lparr>sentMessages := sentMessages t @ [m]\<rparr>)
        \<and> mock_send_all ms t = (None, t\<lparr>sentMessages := sentMessages t @ ms\<rparr>))"
  by (simp add: mock_send_def mock_send_all_ok)

theorem mock_send_records_in_order_witness:
  "sendError failing_transport = Some (JsError ''send boom'')
   \<and> mock_send (envelope None) failing_transport = (Some (JsError ''send boom''), failing_transport)
   \<and> sendError (mock_new :: string MockTransportAdapter) = None
   \<and> sentMessages (snd (mock_send (envelope None) mock_new)) = [envelope None]
   \<and> sentMessages (snd (mock_send_all [envelope None, envelope (Some ''cart'')] mock_new))
       = [envelope None, envelope (Some ''cart'')]"
proof -
  have a: "sendError failing_transport = Some (JsError ''send boom'')"
    by (simp add: failing_transport_def mock_new_def)
  have b: "sendError (mock_new :: string MockTransportAdapter) = None"
    by (simp add: mock_new_def)
  from mock_send_records_in_order [of failing_transport "JsError ''send boom''" "envelope None"] a
  have c: "mock_send (envelope None) failing_transport = (Some (JsError ''send boom''), failing_transport)"
    by blast
  from mock_send_records_in_order [of mock_new _ "envelope None" "[envelope None, envelope (Some ''cart'')]"] b
  have d: "mock_send (envelope None) (mock_new :: string MockTransportAdapter)
             = (None, mock_new\<lparr>sentMessages := sentMessages mock_new @ [envelope None]\<rparr>)"
    and e: "mock_send_all [envelope None, envelope (Some ''cart'')] (mock_new :: string MockTransportAdapter)
             = (None, mock_new\<lparr>sentMessages := sentMessages mock_new @ [envelope None, envelope (Some ''cart'')]\<rparr>)"
    by blast+
  have f: "sentMessages (mock_new :: string MockTransportAdapter) = []" by (simp add: mock_new_def)
  have g: "sentMessages (snd (mock_send (envelope None) mock_new)) = [envelope None]"
    unfolding d by (simp add: f)
  have h: "sentMessages (snd (mock_send_all [envelope None, envelope (Some ''cart'')] mock_new))
       = [envelope None, envelope (Some ''cart'')]"
    unfolding e by (simp add: f)
  from a b c g h show ?thesis by blast
qed

section \<open>Properties of the client\<close>

subsection \<open>Dispatch\<close>

lemma isolated_step:
  "try_catch (invoke beh c) (\<lambda>e. log_stmt (lg e)) r =
     (None, r\<lparr>invoked := invoked r @ [c],
              logged := logged r @ (case beh c of None \<Rightarrow> [] | Some e \<Rightarrow> [lg e])\<rparr>)"
  by (cases "beh c") (simp_all add: try_catch_def invoke_def log_stmt_def log_def)

lemma for_each_isolated:
  "for_each (\<lambda>h. try_catch (invoke beh (mk h)) (\<lambda>e. log_stmt (lg e))) hs r =
     (None, r\<lparr>invoked := invoked r @ map mk hs,
              logged := logged r @ List.map_filter (\<lambda>h. map_option lg (beh (mk h))) hs\<rparr>)"
proof (induction hs arbitrary: r)
  case Nil
  show ?case by (simp add: List.map_filter_simps)
next
  case (Cons h hs)
  let ?body = "\<lambda>h. try_catch (invoke beh (mk h)) (\<lambda>e. log_stmt (lg e))"
  let ?r1 = "r\<lparr>invoked := invoked r @ [mk h],
               logged := logged r @ (case beh (mk h) of None \<Rightarrow> [] | Some e \<Rightarrow> [lg e])\<rparr>"
  have step: "?body h r = (None, ?r1)" by (rule isolated_step)
  have "for_each ?body (h # hs) r =
      (case ?body h r of (None, s') \<Rightarrow> for_each ?body hs s' | (Some e, s') \<Rightarrow> (Some e, s'))"
    by (rule for_each.simps)
  also have "\<dots> = for_each ?body hs ?r1" by (simp only: step prod.case option.case)
  also have "\<dots> = (None, ?r1\<lparr>invoked := invoked ?r1 @ map mk hs,
              logged := logged ?r1 @ List.map_filter (\<lambda>h. map_option lg (beh (mk h))) hs\<rparr>)"
    by (rule Cons.IH)
  also have "\<dots> = (None, r\<lparr>invoked := invoked r @ map mk (h # hs),
              logged := logged r @ List.map_filter (\<lambda>h. map_option lg (beh (mk h))) (h # hs)\<rparr>)"
    by (cases "beh (mk h)") (simp_all add: List.map_filter_simps)
  finally show ?case .
qed

lemma relay_handleMessage_eq:
  "relay_handleMessage beh m r =
     (None, r\<lparr>invoked := invoked r
                 @ map (\<lambda>h. WildcardCall h (event m) (payload m) m) (wildcardHandlers r)
                 @ map (\<lambda>h. HandlerCall h (payload m) m) (handlers_of r (event m)),
              logged := logged r @ [Received (event m) (source m) m]
                 @ List.map_filter (\<lambda>h. map_option WildcardHandlerThrew
                      (beh (WildcardCall h (event m) (payload m) m))) (wildcardHandlers r)
                 @ List.map_filter (\<lambda>h. map_option (HandlerThrew (event m))
                      (beh (HandlerCall h (payload m) m))) (handlers_of r (event m))\<rparr>)"
  by (simp add: relay_handleMessage_def and_then_def log_stmt_def log_def for_each_isolated
      handlers_of_def List.map_filter_simps split: option.splits)

lemma handlers_of_on:
  "handlers_of (on ev' h r) ev = (if ev = ev' then set_add h (handlers_of r ev) else handlers_of r ev)"
  by (cases "map_get (handlers r) ev'")
     (simp_all add: handlers_of_def on_def log_def map_set_get_upd Let_def)

lemma wildcardHandlers_on: "wildcardHandlers (on ev h r) = wildcardHandlers r"
  by (simp add: on_def log_def Let_def)

lemma handlers_of_onAny: "handlers_of (onAny h r) ev = handlers_of r ev"
  by (simp add: handlers_of_def onAny_def log_def)

lemma wildcardHandlers_onAny: "wildcardHandlers (onAny h r) = set_add h (wildcardHandlers r)"
  by (simp add: onAny_def log_def)

lemma invoked_on: "invoked (on ev h r) = invoked r"
  by (simp add: on_def log_def Let_def)

lemma invoked_onAny: "invoked (onAny h r) = invoked r"
  by (simp add: onAny_def log_def)

lemma subscribe_all_wildcardHandlers:
  "wildcardHandlers (subscribe_all ss r) = in_order (wildcardHandlers r) (wildcard_subscribers ss)"
proof (induction ss arbitrary: r)
  case Nil
  show ?case by simp
next
  case (Cons s ss)
  show ?case
    by (cases s) (simp_all add: Cons.IH wildcardHandlers_on wildcardHandlers_onAny)
qed

lemma subscribe_all_handlers_of:
  "handlers_of (subscribe_all ss r) ev = in_order (handlers_of r ev) (event_subscribers ev ss)"
proof (induction ss arbitrary: r)
  case Nil
  show ?case by simp
next
  case (Cons s ss)
  show ?case
    by (cases s) (simp_all add: Cons.IH handlers_of_on handlers_of_onAny)
qed

lemma subscribe_all_invoked: "invoked (subscribe_all ss r) = invoked r"
proof (induction ss arbitrary: r)
  case Nil
  show ?case by simp
next
  case (Cons s ss)
  show ?case by (cases s) (simp_all add: Cons.IH invoked_on invoked_onAny)
qed

lemma in_order_distinct: "distinct (acc @ xs) \<Longrightarrow> in_order acc xs = acc @ xs"
proof (induction xs arbitrary: acc)
  case Nil
  show ?case by simp
next
  case (Cons x xs)
  from Cons.prems have "x \<notin> set acc" and "distinct ((acc @ [x]) @ xs)" by auto
  then show ?case using Cons.IH [of "acc @ [x]"] by (simp add: set_add_def)
qed

text \<open>
  Claim C4. Dispatching an inbound envelope calls every wildcard handler with
  (event, payload, envelope), in the order of the wildcard set, and then every handler of
  the set kept for \<^verbatim>\<open>envelope.event\<close> with (payload, envelope), in the order of that set;
  no other call is made, so a handler subscribed only to another event name is not
  called. The order of the sets is the order of subscription: on a relay that was
  created and then given any run of \<^verbatim>\<open>on\<close> and \<^verbatim>\<open>onAny\<close> subscriptions, the calls are the
  wildcard subscribers in subscription order followed by the subscribers of the
  envelope's event in subscription order (\<open>in_order\<close>: the subscriptions as they were
  made, a repeated one counting where it was made first).
\<close>

theorem dispatch_wildcards_then_event_handlers:
  "invoked (snd (relay_handleMessage beh m r)) =
     invoked r
     @ map (\<lambda>h. WildcardCall h (event m) (payload m) m) (wildcardHandlers r)
     @ map (\<lambda>h. HandlerCall h (payload m) m) (handlers_of r (event m))
   \<and> invoked (snd (relay_handleMessage beh m (subscribe_all ss (relay_new cid t)))) =
     map (\<lambda>h. WildcardCall h (event m) (payload m) m) (in_order [] (wildcard_subscribers ss))
     @ map (\<lambda>h. HandlerCall h (payload m) m) (in_order [] (event_subscribers (event m) ss))"
proof -
  have new: "wildcardHandlers (relay_new cid t) = []" "handlers_of (relay_new cid t) (event m) = []"
    "invoked (relay_new cid t) = []"
    by (simp_all add: relay_new_def handlers_of_def map_get_def)
  show ?thesis
    by (simp add: relay_handleMessage_eq subscribe_all_wildcardHandlers subscribe_all_handlers_of
        subscribe_all_invoked new)
qed

text \<open>
  Claim C5. Dispatching an inbound envelope never throws, whatever the handlers do: an
  error thrown by a handler is caught around that one call and logged at error level,
  and the calls made are the same as when no handler throws: all wildcard handlers, then
  all handlers of the event. The subscriptions and the connection state are left as they
  were.
\<close>

theorem dispatch_isolates_handler_errors:
  "fst (relay_handleMessage beh m r) = None
   \<and> invoked (snd (relay_handleMessage beh m r)) = invoked (snd (relay_handleMessage (\<lambda>c. None) m r))
   \<and> invoked (snd (relay_handleMessage beh m r)) =
       invoked r
       @ map (\<lambda>h. WildcardCall h (event m) (payload m) m) (wildcardHandlers r)
       @ map (\<lambda>h. HandlerCall h (payload m) m) (handlers_of r (event m))
   \<and> logged (snd (relay_handleMessage beh m r)) =
       logged r @ [Received (event m) (source m) m]
       @ List.map_filter (\<lambda>h. map_option WildcardHandlerThrew
            (beh (WildcardCall h (event m) (payload m) m))) (wildcardHandlers r)
       @ List.map_filter (\<lambda>h. map_option (HandlerThrew (event m))
            (beh (HandlerCall h (payload m) m))) (handlers_of r (event m))
   \<and> handlers (snd (relay_handleMessage beh m r)) = handlers r
   \<and> wildcardHandlers (snd (relay_handleMessage beh m r)) = wildcardHandlers r
   \<and> relay_state (snd (relay_handleMessage beh m r)) = relay_state r"
  by (simp add: relay_handleMessage_eq)

subsection \<open>Lifecycle\<close>

lemma connect_when_connected:
  "relay_state r = Connected \<Longrightarrow> connect r = (None, r\<lparr>logged := logged r @ [AlreadyConnected]\<rparr>)"
  by (simp add: connect_def connect_begin_def log_def)

lemma connect_success:
  assumes "relay_state r \<noteq> Connected" and "connectError (transport r) = None"
  shows "connect r =
    (None, r\<lparr>relay_state := Connected,
             stateChanges := stateChanges r @ [Connecting, Connected],
             logged := logged r @ [ConnectingAs (clientId r), ConnectedAs (clientId r)],
             transport := (transport r)\<lparr>
               mock_messageHandlers := set_add RelayHandleMessage (mock_messageHandlers (transport r)),
               mock_errorHandlers := set_add RelayHandleError (mock_errorHandlers (transport r)),
               connectCalled := True, mock_clientId := Some (clientId r), mock_state := Connected\<rparr>\<rparr>)"
  using assms
  by (simp add: connect_def connect_begin_def connect_resume_def log_def setState_def
      mock_connect_def mock_onMessage_def mock_onError_def Let_def)

lemma disconnect_when_disconnected: "relay_state r = Disconnected \<Longrightarrow> disconnect r = r"
  by (simp add: disconnect_def)

lemma disconnect_otherwise:
  "relay_state r \<noteq> Disconnected \<Longrightarrow> disconnect r =
     r\<lparr>relay_state := Disconnected, stateChanges := stateChanges r @ [Disconnected],
       logged := logged r @ [DisconnectingLog (clientId r), DisconnectedLog (clientId r)],
       handlers := [], wildcardHandlers := [],
       transport := (transport r)\<lparr>disconnectCalled := True, mock_state := Disconnected,
         mock_clientId := None, mock_messageHandlers := [], mock_errorHandlers := []\<rparr>\<rparr>"
  by (simp add: disconnect_def log_def setState_def mock_disconnect_def mock_offMessage_def
      mock_offError_def Let_def)

lemma test_relay_facts:
  "relay_state test_relay = Disconnected" "connectError (transport test_relay) = None"
  "stateChanges test_relay = []"
  by (simp_all add: test_relay_def relay_new_def mock_new_def)

lemma connected_relay_eq:
  "connected_relay = test_relay\<lparr>relay_state := Connected,
             stateChanges := [Connecting, Connected],
             logged := [ConnectingAs ''test-app'', ConnectedAs ''test-app''],
             transport := mock_new\<lparr>
               mock_messageHandlers := [RelayHandleMessage],
               mock_errorHandlers := [RelayHandleError],
               connectCalled := True, mock_clientId := Some ''test-app'', mock_state := Connected\<rparr>\<rparr>"
proof -
  have "relay_state test_relay \<noteq> Connected" by (simp add: test_relay_facts)
  from connect_success [OF this test_relay_facts(2)]
  show ?thesis
    by (simp add: connected_relay_def) (simp add: test_relay_def relay_new_def mock_new_def set_add_def)
qed

text \<open>
  Claim C8, as stated, at two \<^verbatim>\<open>connect()\<close> calls made in a row on a new relay, the second
  before the first has been resumed: the second call finds the state Connecting, which its
  guard lets pass, so it sets the state and calls the transport again, and the state-change
  callback receives each of Connecting and Connected twice.
\<close>

theorem overlapping_connects_report_each_transition_twice:
  "relay_state test_relay = Disconnected
   \<and> fst (connect_begin test_relay) = Awaiting None
   \<and> fst (connect_begin (snd (connect_begin test_relay))) = Awaiting None
   \<and> stateChanges (snd (connect_resume None (snd (connect_resume None
        (snd (connect_begin (snd (connect_begin test_relay))))))))
      = [Connecting, Connecting, Connected, Connected]"
  by (simp add: connect_begin_def connect_resume_def log_def setState_def mock_connect_def
      mock_onMessage_def mock_onError_def Let_def test_relay_def relay_new_def mock_new_def)

text \<open>
  Claim C8, amended. \<^verbatim>\<open>connect()\<close> in state Connected returns without touching the state, the
  transport, the subscriptions or the state-change callback (it only logs a warning, and
  logging is outside what the specification describes); \<^verbatim>\<open>disconnect()\<close> in state
  Disconnected returns with the relay exactly as it was. So two \<^verbatim>\<open>connect()\<close> calls in a
  row on a disconnected relay, the second made once the first has completed and the
  transport has connected, give the state-change callback exactly Connecting and then
  Connected, once each, and the second call leaves the transport as the first left it.
\<close>

theorem connect_and_disconnect_are_idempotent:
  "(relay_state r = Connected \<longrightarrow> connect r = (None, r\<lparr>logged := logged r @ [AlreadyConnected]\<rparr>))
   \<and> (relay_state r = Disconnected \<longrightarrow> disconnect r = r)
   \<and> (relay_state r = Disconnected \<and> connectError (transport r) = None \<longrightarrow>
        fst (connect r) = None
        \<and> fst (connect (snd (connect r))) = None
        \<and> relay_state (snd (connect (snd (connect r)))) = Connected
        \<and> stateChanges (snd (connect (snd (connect r)))) = stateChanges r @ [Connecting, Connected]
        \<and> transport (snd (connect (snd (connect r)))) = transport (snd (connect r)))"
proof -
  have twice: "fst (connect r) = None
        \<and> fst (connect (snd (connect r))) = None
        \<and> relay_state (snd (connect (snd (connect r)))) = Connected
        \<and> stateChanges (snd (connect (snd (connect r)))) = stateChanges r @ [Connecting, Connected]
        \<and> transport (snd (connect (snd (connect r)))) = transport (snd (connect r))"
    if d: "relay_state r = Disconnected" and ok: "connectError (transport r) = None"
  proof -
    from d have "relay_state r \<noteq> Connected" by simp
    note first = connect_success [OF this ok]
    have c: "relay_state (snd (connect r)) = Connected" by (simp add: first)
    show ?thesis
      unfolding connect_when_connected [OF c] by (simp add: first)
  qed
  show ?thesis
    using connect_when_connected [of r] disconnect_when_disconnected [of r] twice by blast
qed

theorem connect_and_disconnect_are_idempotent_witness:
  "relay_state connected_relay = Connected
   \<and> connect connected_relay = (None, connected_relay\<lparr>logged := logged connected_relay @ [AlreadyConnected]\<rparr>)
   \<and> relay_state test_relay = Disconnected \<and> connectError (transport test_relay) = None
   \<and> disconnect test_relay = test_relay
   \<and> relay_state (snd (connect (snd (connect test_relay)))) = Connected
   \<and> stateChanges (snd (connect (snd (connect test_relay)))) = [Connecting, Connected]"
proof -
  have c: "relay_state connected_relay = Connected" by (simp add: connected_relay_eq)
  from connect_and_disconnect_are_idempotent [of connected_relay] c
  have 1: "connect connected_relay = (None, connected_relay\<lparr>logged := logged connected_relay @ [AlreadyConnected]\<rparr>)"
    by blast
  from connect_and_disconnect_are_idempotent [of test_relay] test_relay_facts(1,2)
  have 2: "disconnect test_relay = test_relay"
    and 3: "relay_state (snd (connect (snd (connect test_relay)))) = Connected"
    and 4: "stateChanges (snd (connect (snd (connect test_relay)))) = stateChanges test_relay @ [Connecting, Connected]"
    by blast+
  from 4 have 5: "stateChanges (snd (connect (snd (connect test_relay)))) = [Connecting, Connected]"
    by (simp add: test_relay_facts)
  from c 1 2 3 5 test_relay_facts(1,2) show ?thesis by blast
qed

text \<open>
  Claim C7, as stated, at a relay that is in state Disconnected and has one subscriber
  for an event and one wildcard subscriber: \<^verbatim>\<open>disconnect()\<close> returns at its first line, and
  both subscriptions are still there.
\<close>

theorem disconnect_when_disconnected_keeps_subscriptions:
  "relay_state (on ''user:login'' 1 (onAny 2 test_relay)) = Disconnected
   \<and> handlers (disconnect (on ''user:login'' 1 (onAny 2 test_relay))) = [(''user:login'', [1])]
   \<and> wildcardHandlers (disconnect (on ''user:login'' 1 (onAny 2 test_relay))) = [2]"
  by (simp add: disconnect_def on_def onAny_def log_def test_relay_def relay_new_def
      map_get_def set_add_def Let_def)

lemma simulateMessage_no_handlers:
  "mock_messageHandlers (transport r) = [] \<Longrightarrow> simulateMessage beh foreign m r = (None, r)"
  by (simp add: simulateMessage_def)

text \<open>
  Claim C7, amended. For every call to \<^verbatim>\<open>disconnect()\<close> made in a state other than
  Disconnected, all per-event and wildcard subscriptions are cleared and the transport is
  left without message handlers, and an inbound message arriving after the call invokes
  no handler, the handlers registered before the call included: neither when the
  transport simulates it, nor if it were handed to the relay's dispatcher directly.
\<close>

theorem disconnect_clears_subscriptions:
  assumes "relay_state r \<noteq> Disconnected"
  shows "handlers (disconnect r) = [] \<and> wildcardHandlers (disconnect r) = []
    \<and> relay_state (disconnect r) = Disconnected
    \<and> mock_messageHandlers (transport (disconnect r)) = []
    \<and> invoked (disconnect r) = invoked r
    \<and> simulateMessage beh foreign m (disconnect r) = (None, disconnect r)
    \<and> invoked (snd (relay_handleMessage beh m (disconnect r))) = invoked r"
proof -
  note d = disconnect_otherwise [OF assms]
  have h: "handlers (disconnect r) = []" and w: "wildcardHandlers (disconnect r) = []"
    and s: "relay_state (disconnect r) = Disconnected"
    and t: "mock_messageHandlers (transport (disconnect r)) = []"
    and i: "invoked (disconnect r) = invoked r"
    by (simp_all add: d)
  have sim: "simulateMessage beh foreign m (disconnect r) = (None, disconnect r)"
    using t by (rule simulateMessage_no_handlers)
  have "handlers_of (disconnect r) (event m) = []" by (simp add: handlers_of_def h map_get_def)
  then have direct: "invoked (snd (relay_handleMessage beh m (disconnect r))) = invoked r"
    by (simp add: relay_handleMessage_eq w i)
  from h w s t i sim direct show ?thesis by blast
qed

theorem disconnect_clears_subscriptions_witness:
  "relay_state (on ''user:login'' 1 (onAny 2 connected_relay)) \<noteq> Disconnected
   \<and> handlers (on ''user:login'' 1 (onAny 2 connected_relay)) = [(''user:login'', [1])]
   \<and> wildcardHandlers (on ''user:login'' 1 (onAny 2 connected_relay)) = [2]
   \<and> handlers (disconnect (on ''user:login'' 1 (onAny 2 connected_relay))) = []
   \<and> wildcardHandlers (disconnect (on ''user:login'' 1 (onAny 2 connected_relay))) = []
   \<and> invoked (snd (simulateMessage (\<lambda>c. None) (\<lambda>n. None) (envelope None)
         (disconnect (on ''user:login'' 1 (onAny 2 connected_relay))))) = []"
proof -
  let ?r = "on ''user:login'' 1 (onAny 2 connected_relay)"
  have a: "relay_state ?r \<noteq> Disconnected"
    by (simp add: on_def onAny_def log_def Let_def connected_relay_eq)
  have b: "handlers ?r = [(''user:login'', [1])]" "wildcardHandlers ?r = [2]" "invoked ?r = []"
    by (simp_all add: on_def onAny_def log_def Let_def connected_relay_eq test_relay_def
        relay_new_def map_get_def set_add_def)
  from disconnect_clears_subscriptions [OF a, of "\<lambda>c. None" "\<lambda>n. None" "envelope None"]
  have c: "handlers (disconnect ?r) = []" "wildcardHandlers (disconnect ?r) = []"
    "invoked (disconnect ?r) = invoked ?r"
    "simulateMessage (\<lambda>c. None) (\<lambda>n. None) (envelope None) (disconnect ?r) = (None, disconnect ?r)"
    by blast+
  have "invoked (snd (simulateMessage (\<lambda>c. None) (\<lambda>n. None) (envelope None) (disconnect ?r))) = []"
    unfolding c(4) using c(3) b(3) by simp
  with a b c show ?thesis by blast
qed

subsection \<open>Sending\<close>

lemma digit_char_inj: "a < 10 \<Longrightarrow> b < 10 \<Longrightarrow> digit_char a = digit_char b \<Longrightarrow> a = b"
proof -
  assume a: "a < 10" and b: "b < 10" and eq: "digit_char a = digit_char b"
  from eq have "(of_char (digit_char a) :: nat) = of_char (digit_char b)" by simp
  then have "(48 + a) mod 256 = (48 + b) mod 256" by (simp add: digit_char_def)
  with a b show "a = b" by simp
qed

lemma digit_char_not_dash: "d < 10 \<Longrightarrow> digit_char d \<noteq> CHR ''-''"
proof
  assume d: "d < 10" and eq: "digit_char d = CHR ''-''"
  from eq have "(of_char (digit_char d) :: nat) = of_char (CHR ''-'')" by simp
  then have "(48 + d) mod 256 = 45" by (simp add: digit_char_def)
  with d show False by simp
qed

lemma show_nat_nonempty: "show_nat n \<noteq> []"
  by (subst show_nat.simps) simp

lemma show_nat_no_dash: "CHR ''-'' \<notin> set (show_nat n)"
proof (induction n rule: show_nat.induct)
  case (1 n)
  show ?case
  proof (cases "n < 10")
    case True
    then show ?thesis using digit_char_not_dash [of n] by (subst show_nat.simps) auto
  next
    case False
    have "n mod 10 < 10" by simp
    then have "digit_char (n mod 10) \<noteq> CHR ''-''" by (rule digit_char_not_dash)
    with False "1.IH" show ?thesis by (subst show_nat.simps) auto
  qed
qed

lemma show_nat_inj: "show_nat n = show_nat m \<Longrightarrow> n = m"
proof (induction n arbitrary: m rule: show_nat.induct)
  case (1 n)
  show ?case
  proof (cases "n < 10")
    case n: True
    show ?thesis
    proof (cases "m < 10")
      case True
      with n "1.prems" have "digit_char n = digit_char m"
        by (simp add: show_nat.simps [of n] show_nat.simps [of m])
      with n True show ?thesis by (rule digit_char_inj)
    next
      case False
      with n "1.prems" have "[digit_char n] = show_nat (m div 10) @ [digit_char (m mod 10)]"
        by (simp add: show_nat.simps [of n] show_nat.simps [of m])
      then have "show_nat (m div 10) = []" by simp
      with show_nat_nonempty show ?thesis by blast
    qed
  next
    case n: False
    show ?thesis
    proof (cases "m < 10")
      case True
      with n "1.prems" have "show_nat (n div 10) @ [digit_char (n mod 10)] = [digit_char m]"
        by (simp add: show_nat.simps [of n] show_nat.simps [of m])
      then have "show_nat (n div 10) = []" by simp
      with show_nat_nonempty show ?thesis by blast
    next
      case False
      with n "1.prems" have "show_nat (n div 10) @ [digit_char (n mod 10)]
          = show_nat (m div 10) @ [digit_char (m mod 10)]"
        by (simp add: show_nat.simps [of n] show_nat.simps [of m])
      then have a: "show_nat (n div 10) = show_nat (m div 10)"
        and b: "digit_char (n mod 10) = digit_char (m mod 10)" by simp_all
      from n a have "n div 10 = m div 10" by (rule "1.IH")
      moreover from b have "n mod 10 = m mod 10" by (intro digit_char_inj) simp_all
      ultimately show ?thesis by (metis div_mult_mod_eq)
    qed
  qed
qed

lemma split_at_first:
  "c \<notin> set xs \<Longrightarrow> c \<notin> set xs' \<Longrightarrow> xs @ c # ys = xs' @ c # ys' \<Longrightarrow> xs = xs' \<and> ys = ys'"
proof (induction xs arbitrary: xs')
  case Nil
  then show ?case by (cases xs') auto
next
  case (Cons x xs)
  then show ?case by (cases xs') auto
qed

lemma generateId_eq_iff:
  "generateId c s = generateId c' s' \<longleftrightarrow> c = c' \<and> take 9 (drop 2 s) = take 9 (drop 2 s')"
proof
  assume "generateId c s = generateId c' s'"
  then have eq: "show_nat c @ CHR ''-'' # take 9 (drop 2 s) = show_nat c' @ CHR ''-'' # take 9 (drop 2 s')"
    by (simp add: generateId_def)
  have split: "show_nat c = show_nat c' \<and> take 9 (drop 2 s) = take 9 (drop 2 s')"
    by (rule split_at_first [OF show_nat_no_dash show_nat_no_dash eq])
  then have "show_nat c = show_nat c'" ..
  then have "c = c'" by (rule show_nat_inj)
  with split show "c = c' \<and> take 9 (drop 2 s) = take 9 (drop 2 s')" by (simp only: simp_thms)
next
  assume "c = c' \<and> take 9 (drop 2 s) = take 9 (drop 2 s')"
  then show "generateId c s = generateId c' s'" by (simp add: generateId_def)
qed

lemma not_connected_send:
  "relay_state r \<noteq> Connected \<Longrightarrow>
     send env tgt ev pl r = (Some (SwarmRelayError ''Not connected. Call connect() first.'' NotConnected None), r)"
  by (simp add: send_def assertConnected_def)

lemma not_connected_broadcast:
  "relay_state r \<noteq> Connected \<Longrightarrow>
     broadcast env ev pl r = (Some (SwarmRelayError ''Not connected. Call connect() first.'' NotConnected None), r)"
  by (simp add: broadcast_def assertConnected_def)

lemma connected_send:
  "relay_state r = Connected \<Longrightarrow>
     send env tgt ev pl r =
       (let message = \<lparr>id' = generateId (id_clock env) (id_random env), source = clientId r,
                        target = Some tgt, event = ev, payload = pl, timestamp = timestamp_clock env\<rparr>
        in (fst (mock_send message (transport r)),
            r\<lparr>logged := logged r @ [Sending ev tgt message],
              transport := snd (mock_send message (transport r))\<rparr>))"
  by (simp add: send_def assertConnected_def log_def Let_def split: prod.splits)

lemma connected_broadcast:
  "relay_state r = Connected \<Longrightarrow>
     broadcast env ev pl r =
       (let message = \<lparr>id' = generateId (id_clock env) (id_random env), source = clientId r,
                        target = None, event = ev, payload = pl, timestamp = timestamp_clock env\<rparr>
        in (fst (mock_send message (transport r)),
            r\<lparr>logged := logged r @ [Broadcasting ev message],
              transport := snd (mock_send message (transport r))\<rparr>))"
  by (simp add: broadcast_def assertConnected_def log_def Let_def split: prod.splits)

lemma connected_relay_facts:
  "relay_state connected_relay = Connected" "clientId connected_relay = ''test-app''"
  "sendError (transport connected_relay) = None" "sentMessages (transport connected_relay) = []"
  by (simp_all add: connected_relay_eq test_relay_def relay_new_def mock_new_def)

text \<open>
  Claim C6, at two \<^verbatim>\<open>send\<close> calls on a connected relay that read the same clock value
  and the same random number: the two envelopes handed to the transport carry the same
  id, so the id of the second is not unique, against what \<^verbatim>\<open>generateId\<close> is documented to
  return (\<^verbatim>\<open>Generate a unique message identifier\<close>).
\<close>

theorem send_ids_collide_on_equal_readings:
  "relay_state connected_relay = Connected
   \<and> map id' (sentMessages (transport (snd (send readings0 ''cart'' ''notify'' ''second''
        (snd (send readings0 ''cart'' ''notify'' ''first'' connected_relay))))))
     = [generateId 5 ''0.4fzyo82mvyr'', generateId 5 ''0.4fzyo82mvyr'']
   \<and> \<not> distinct (map id' (sentMessages (transport (snd (send readings0 ''cart'' ''notify'' ''second''
        (snd (send readings0 ''cart'' ''notify'' ''first'' connected_relay)))))))"
proof -
  let ?r1 = "snd (send readings0 ''cart'' ''notify'' ''first'' connected_relay)"
  note s1 = connected_send [OF connected_relay_facts(1), of readings0 "''cart''" "''notify''" "''first''"]
  have r1: "relay_state ?r1 = Connected" "sendError (transport ?r1) = None"
    "map id' (sentMessages (transport ?r1)) = [generateId 5 ''0.4fzyo82mvyr'']"
    unfolding s1 by (simp_all add: connected_relay_facts mock_send_def readings0_def Let_def)
  note s2 = connected_send [OF r1(1), of readings0 "''cart''" "''notify''" "''second''"]
  have "map id' (sentMessages (transport (snd (send readings0 ''cart'' ''notify'' ''second'' ?r1))))
      = map id' (sentMessages (transport ?r1)) @ [generateId 5 ''0.4fzyo82mvyr'']"
    unfolding s2 using r1(2) by (simp add: mock_send_def Let_def) (simp add: readings0_def)
  with r1(3) have "map id' (sentMessages (transport (snd (send readings0 ''cart'' ''notify'' ''second'' ?r1))))
      = [generateId 5 ''0.4fzyo82mvyr'', generateId 5 ''0.4fzyo82mvyr'']"
    by simp
  moreover from this
  have "\<not> distinct (map id' (sentMessages (transport (snd (send readings0 ''cart'' ''notify'' ''second'' ?r1)))))"
    by simp
  ultimately show ?thesis using connected_relay_facts(1) by blast
qed

text \<open>
  The rest of what claim C6 says holds. For every call to \<^verbatim>\<open>send\<close> or \<^verbatim>\<open>broadcast\<close>: if the
  state is not Connected, the call fails with a NotConnected error and the relay, its transport
  included, is as before (the transport's \<^verbatim>\<open>send\<close> is not called); if the state is
  Connected, an envelope is built whose id is newly generated from the clock reading and
  the random draw of this call, whose timestamp is the current clock reading and whose
  source is the relay's own client id (with the given target for \<^verbatim>\<open>send\<close>, without a target
  for \<^verbatim>\<open>broadcast\<close>), it is passed to the transport's \<^verbatim>\<open>send\<close>, and what that throws is what
  the call throws. Two generated ids are equal exactly when the two clock readings are
  equal and the nine characters kept of the two random draws are equal.
\<close>

theorem send_requires_connected:
  "(relay_state r \<noteq> Connected \<longrightarrow>
      send env tgt ev pl r = (Some (SwarmRelayError ''Not connected. Call connect() first.'' NotConnected None), r)
      \<and> broadcast env ev pl r = (Some (SwarmRelayError ''Not connected. Call connect() first.'' NotConnected None), r))
   \<and> (relay_state r = Connected \<longrightarrow>
      send env tgt ev pl r =
        (let message = \<lparr>id' = generateId (id_clock env) (id_random env), source = clientId r,
                         target = Some tgt, event = ev, payload = pl, timestamp = timestamp_clock env\<rparr>
         in (fst (mock_send message (transport r)),
             r\<lparr>logged := logged r @ [Sending ev tgt message],
               transport := snd (mock_send message (transport r))\<rparr>))
      \<and> broadcast env ev pl r =
        (let message = \<lparr>id' = generateId (id_clock env) (id_random env), source = clientId r,
                         target = None, event = ev, payload = pl, timestamp = timestamp_clock env\<rparr>
         in (fst (mock_send message (transport r)),
             r\<lparr>logged := logged r @ [Broadcasting ev message],
               transport := snd (mock_send message (transport r))\<rparr>)))
   \<and> (generateId c s = generateId c' s' \<longleftrightarrow> c = c' \<and> take 9 (drop 2 s) = take 9 (drop 2 s'))"
  using not_connected_send [of r env tgt ev pl] not_connected_broadcast [of r env ev pl]
    connected_send [of r env tgt ev pl] connected_broadcast [of r env ev pl]
    generateId_eq_iff [of c s c' s']
  by blast

theorem send_requires_connected_witness:
  "relay_state test_relay \<noteq> Connected
   \<and> send readings0 ''cart'' ''notify'' ''hi'' test_relay
       = (Some (SwarmRelayError ''Not connected. Call connect() first.'' NotConnected None), test_relay)
   \<and> relay_state connected_relay = Connected
   \<and> fst (send readings0 ''cart'' ''notify'' ''hi'' connected_relay) = None
   \<and> sentMessages (transport (snd (send readings0 ''cart'' ''notify'' ''hi'' connected_relay)))
       = [\<lparr>id' = generateId 5 ''0.4fzyo82mvyr'', source = ''test-app'', target = Some ''cart'',
            event = ''notify'', payload = ''hi'', timestamp = 5\<rparr>]
   \<and> sentMessages (transport (snd (broadcast readings0 ''notify'' ''hi'' connected_relay)))
       = [\<lparr>id' = generateId 5 ''0.4fzyo82mvyr'', source = ''test-app'', target = None,
            event = ''notify'', payload = ''hi'', timestamp = 5\<rparr>]"
proof -
  have a: "relay_state test_relay \<noteq> Connected" by (simp add: test_relay_facts)
  from send_requires_connected [of test_relay readings0 "''cart''" "''notify''" "''hi''"] a
  have 1: "send readings0 ''cart'' ''notify'' ''hi'' test_relay
       = (Some (SwarmRelayError ''Not connected. Call connect() first.'' NotConnected None), test_relay)"
    by blast
  note c = connected_relay_facts(1)
  from send_requires_connected [of connected_relay readings0 "''cart''" "''notify''" "''hi''"] c
  have 2: "send readings0 ''cart'' ''notify'' ''hi'' connected_relay =
        (let message = \<lparr>id' = generateId (id_clock readings0) (id_random readings0),
                         source = clientId connected_relay,
                         target = Some ''cart'', event = ''notify'', payload = ''hi'',
                         timestamp = timestamp_clock readings0\<rparr>
         in (fst (mock_send message (transport connected_relay)),
             connected_relay\<lparr>logged := logged connected_relay @ [Sending ''notify'' ''cart'' message],
               transport := snd (mock_send message (transport connected_relay))\<rparr>))"
    and 3: "broadcast readings0 ''notify'' ''hi'' connected_relay =
        (let message = \<lparr>id' = generateId (id_clock readings0) (id_random readings0),
                         source = clientId connected_relay,
                         target = None, event = ''notify'', payload = ''hi'',
                         timestamp = timestamp_clock readings0\<rparr>
         in (fst (mock_send message (transport connected_relay)),
             connected_relay\<lparr>logged := logged connected_relay @ [Broadcasting ''notify'' message],
               transport := snd (mock_send message (transport connected_relay))\<rparr>))"
    by blast+
  have 4: "fst (send readings0 ''cart'' ''notify'' ''hi'' connected_relay) = None"
    and 5: "sentMessages (transport (snd (send readings0 ''cart'' ''notify'' ''hi'' connected_relay)))
       = [\<lparr>id' = generateId 5 ''0.4fzyo82mvyr'', source = ''test-app'', target = Some ''cart'',
            event = ''notify'', payload = ''hi'', timestamp = 5\<rparr>]"
    unfolding 2 by (simp_all add: Let_def mock_send_def connected_relay_facts readings0_def)
  have 6: "sentMessages (transport (snd (broadcast readings0 ''notify'' ''hi'' connected_relay)))
       = [\<lparr>id' = generateId 5 ''0.4fzyo82mvyr'', source = ''test-app'', target = None,
            event = ''notify'', payload = ''hi'', timestamp = 5\<rparr>]"
    unfolding 3 by (simp add: Let_def mock_send_def connected_relay_facts readings0_def)
  from a 1 c 4 5 6 show ?thesis by blast
qed

subsection \<open>Handlers that throw, on a concrete relay\<close>

text \<open>The unit tests of error handling, with both throwing handlers at once.\<close>

lemma subscribed_relay_facts:
  "wildcardHandlers subscribed_relay = [3]"
  "handlers_of subscribed_relay ''user:login'' = [1, 2]"
  "invoked subscribed_relay = []"
  "logged subscribed_relay = [ConnectingAs ''test-app'', ConnectedAs ''test-app'',
      SubscribedTo ''user:login'', SubscribedWildcard, SubscribedTo ''user:login'']"
  by (simp_all add: subscribed_relay_def subscribe_all_wildcardHandlers subscribe_all_handlers_of
      subscribe_all_invoked connected_relay_eq test_relay_def relay_new_def handlers_of_def
      map_get_def set_add_def on_def onAny_def log_def Let_def)

lemma throwing_handlers_example:
  "fst (relay_handleMessage booms login subscribed_relay) = None"
  "invoked (snd (relay_handleMessage booms login subscribed_relay)) =
     [WildcardCall 3 ''user:login'' ''u1'' login, HandlerCall 1 ''u1'' login, HandlerCall 2 ''u1'' login]"
  "drop 5 (logged (snd (relay_handleMessage booms login subscribed_relay))) =
     [Received ''user:login'' ''other'' login, WildcardHandlerThrew (JsError ''wildcard boom''),
      HandlerThrew ''user:login'' (JsError ''handler boom'')]"
  by (simp_all add: relay_handleMessage_eq subscribed_relay_facts List.map_filter_simps login_def)

section \<open>Properties of the SharedWorker transport\<close>

lemma connect_begin_starts_handshake:
  assumes "swt_state t \<noteq> Connected"
  shows "fst (swt_connect_begin True None cid t) = AwaitingHandshake (next_handshake t)"
    and "handshakeAbort (snd (swt_connect_begin True None cid t)) = Some (next_handshake t)"
    and "handshakes (snd (swt_connect_begin True None cid t)) (next_handshake t)
           = \<lparr>hs_timeout = Armed 5000, hs_promise = Pending\<rparr>"
    and "swt_state (snd (swt_connect_begin True None cid t)) = Connecting"
    and "posted (snd (swt_connect_begin True None cid t)) = posted t @ [(next_worker t, Register cid)]"
  using assms by (simp_all add: swt_connect_begin_def handshake_def Let_def)

lemma handshake_stays_outstanding:
  assumes "port_onmessage t p = Some (HandshakeOnMessage h)" and "\<forall>c. d \<noteq> Registered c"
  shows "port_receives p d t = (None, t)"
    and "handshakeAbort (port_messageerror q t) = handshakeAbort t"
    and "handshakes (port_messageerror q t) = handshakes t"
  using assms by (cases d; simp add: port_receives_def port_messageerror_def emitError_def)+

lemma disconnect_aborts:
  assumes "handshakeAbort t = Some h"
  shows "handshakes (swt_disconnect t) =
           (handshakes t)(h := reject (SwarmRelayError ''Connection aborted'' ConnectionFailed None)
                                  (clearTimeout (handshakes t h)))"
    and "handshakeAbort (swt_disconnect t) = None"
    and "swt_state (swt_disconnect t) = Disconnected"
  using assms by (simp_all add: swt_disconnect_def cleanup_def Let_def split: option.splits)

text \<open>
  The handshake that \<^verbatim>\<open>handshakeAbort\<close> refers to is aborted as claim C9 says. While
  \<^verbatim>\<open>connect()\<close> is suspended in its handshake and no other \<^verbatim>\<open>connect()\<close> was called, the
  transport holds the handshake's abort closure in \<^verbatim>\<open>handshakeAbort\<close>, the handshake's
  promise is pending and its timer is armed with a delay of 5000 ms (second part: this is
  how \<^verbatim>\<open>connect()\<close> leaves a transport that was not connected, in an environment that has
  \<^verbatim>\<open>SharedWorker\<close>). A \<^verbatim>\<open>disconnect()\<close> call in such a state settles everything before it
  returns (first part): the handshake's promise is rejected with the error
  "Connection aborted", its timer is cleared, so that the timeout callback never runs,
  and \<^verbatim>\<open>handshakeAbort\<close> is \<^verbatim>\<open>null\<close> again; \<^verbatim>\<open>connect()\<close>, resumed on the rejected promise,
  rejects with that same error.
\<close>

theorem disconnect_aborts_pending_handshake:
  "(handshakeAbort t = Some h \<and> hs_promise (handshakes t h) = Pending
      \<and> hs_timeout (handshakes t h) = Armed delay
      \<longrightarrow> hs_promise (handshakes (swt_disconnect t) h)
            = Rejected (SwarmRelayError ''Connection aborted'' ConnectionFailed None)
        \<and> hs_timeout (handshakes (swt_disconnect t) h) = Cleared
        \<and> handshakeAbort (swt_disconnect t) = None
        \<and> timeout_fires h (swt_disconnect t) = swt_disconnect t
        \<and> map_option fst (swt_connect_resume h (swt_disconnect t))
            = Some (Some (SwarmRelayError ''Connection aborted'' ConnectionFailed None)))
   \<and> (swt_state t \<noteq> Connected
      \<longrightarrow> fst (swt_connect_begin True None cid t) = AwaitingHandshake (next_handshake t)
        \<and> handshakeAbort (snd (swt_connect_begin True None cid t)) = Some (next_handshake t)
        \<and> hs_promise (handshakes (snd (swt_connect_begin True None cid t)) (next_handshake t)) = Pending
        \<and> hs_timeout (handshakes (snd (swt_connect_begin True None cid t)) (next_handshake t)) = Armed 5000
        \<and> swt_connect_resume (next_handshake t) (snd (swt_connect_begin True None cid t)) = None)"
proof -
  have first: "hs_promise (handshakes (swt_disconnect t) h)
            = Rejected (SwarmRelayError ''Connection aborted'' ConnectionFailed None)
        \<and> hs_timeout (handshakes (swt_disconnect t) h) = Cleared
        \<and> handshakeAbort (swt_disconnect t) = None
        \<and> timeout_fires h (swt_disconnect t) = swt_disconnect t
        \<and> map_option fst (swt_connect_resume h (swt_disconnect t))
            = Some (Some (SwarmRelayError ''Connection aborted'' ConnectionFailed None))"
    if a: "handshakeAbort t = Some h" and p: "hs_promise (handshakes t h) = Pending"
      and tm: "hs_timeout (handshakes t h) = Armed delay"
  proof -
    note d = disconnect_aborts [OF a]
    have pr: "hs_promise (handshakes (swt_disconnect t) h)
            = Rejected (SwarmRelayError ''Connection aborted'' ConnectionFailed None)"
      and ti: "hs_timeout (handshakes (swt_disconnect t) h) = Cleared"
      using p tm by (simp_all add: d(1) reject_def clearTimeout_def)
    have fires: "timeout_fires h (swt_disconnect t) = swt_disconnect t"
      using ti by (simp add: timeout_fires_def)
    have resume: "map_option fst (swt_connect_resume h (swt_disconnect t))
            = Some (Some (SwarmRelayError ''Connection aborted'' ConnectionFailed None))"
      using pr by (simp add: swt_connect_resume_def connection_error_def)
    from pr ti d(2) fires resume show ?thesis by blast
  qed
  have second: "fst (swt_connect_begin True None cid t) = AwaitingHandshake (next_handshake t)
        \<and> handshakeAbort (snd (swt_connect_begin True None cid t)) = Some (next_handshake t)
        \<and> hs_promise (handshakes (snd (swt_connect_begin True None cid t)) (next_handshake t)) = Pending
        \<and> hs_timeout (handshakes (snd (swt_connect_begin True None cid t)) (next_handshake t)) = Armed 5000
        \<and> swt_connect_resume (next_handshake t) (snd (swt_connect_begin True None cid t)) = None"
    if s: "swt_state t \<noteq> Connected"
    using connect_begin_starts_handshake [OF s, of cid]
    by (simp add: swt_connect_resume_def)
  from first second show ?thesis by blast
qed

theorem disconnect_aborts_pending_handshake_witness:
  "swt_state (swt_new :: string SharedWorkerTransport) \<noteq> Connected
   \<and> handshakeAbort connecting_transport = Some 0
   \<and> hs_promise (handshakes connecting_transport 0) = Pending
   \<and> hs_timeout (handshakes connecting_transport 0) = Armed 5000
   \<and> hs_promise (handshakes (swt_disconnect connecting_transport) 0)
       = Rejected (SwarmRelayError ''Connection aborted'' ConnectionFailed None)
   \<and> hs_timeout (handshakes (swt_disconnect connecting_transport) 0) = Cleared
   \<and> timeout_fires 0 (swt_disconnect connecting_transport) = swt_disconnect connecting_transport
   \<and> map_option fst (swt_connect_resume 0 (swt_disconnect connecting_transport))
       = Some (Some (SwarmRelayError ''Connection aborted'' ConnectionFailed None))"
proof -
  have n: "swt_state (swt_new :: string SharedWorkerTransport) \<noteq> Connected"
    and z: "next_handshake (swt_new :: string SharedWorkerTransport) = 0"
    by (simp_all add: swt_new_def)
  from disconnect_aborts_pending_handshake [of "swt_new :: string SharedWorkerTransport" _ _ "''shell''"] n
  have b: "handshakeAbort connecting_transport = Some 0"
    "hs_promise (handshakes connecting_transport 0) = Pending"
    "hs_timeout (handshakes connecting_transport 0) = Armed 5000"
    unfolding connecting_transport_def z by blast+
  from disconnect_aborts_pending_handshake [of connecting_transport 0 5000] b
  have c: "hs_promise (handshakes (swt_disconnect connecting_transport) 0)
       = Rejected (SwarmRelayError ''Connection aborted'' ConnectionFailed None)"
    "hs_timeout (handshakes (swt_disconnect connecting_transport) 0) = Cleared"
    "timeout_fires 0 (swt_disconnect connecting_transport) = swt_disconnect connecting_transport"
    "map_option fst (swt_connect_resume 0 (swt_disconnect connecting_transport))
       = Some (Some (SwarmRelayError ''Connection aborted'' ConnectionFailed None))"
    by blast+
  from n b c show ?thesis by blast
qed

lemma twice_connecting_facts:
  "handshakeAbort connecting_transport = Some 0"
  "handshakeAbort twice_connecting_transport = Some 1"
  "handshakes twice_connecting_transport 0 = \<lparr>hs_timeout = Armed 5000, hs_promise = Pending\<rparr>"
  "handshakes twice_connecting_transport 1 = \<lparr>hs_timeout = Armed 5000, hs_promise = Pending\<rparr>"
  "swt_port twice_connecting_transport = Some 1"
  by (simp_all add: twice_connecting_transport_def connecting_transport_def swt_connect_begin_def
      handshake_def swt_new_def Let_def)

text \<open>
  Claim C9, at a transport on which \<^verbatim>\<open>connect()\<close> was called twice before \<^verbatim>\<open>disconnect()\<close>
  (the guard of \<^verbatim>\<open>connect\<close> lets a transport in state Connecting pass). The second
  handshake has overwritten \<^verbatim>\<open>handshakeAbort\<close>, so \<^verbatim>\<open>disconnect()\<close> aborts the second
  handshake only: the first, still outstanding, keeps its pending promise and its armed
  timer, the first \<^verbatim>\<open>connect()\<close> stays suspended, and it is the timeout, 5000 ms after the
  call, that rejects it, with "SharedWorker registration timed out". The comment in
  \<^verbatim>\<open>disconnect\<close> says \<^verbatim>\<open>Cancel any in-progress handshake immediately\<close>.
\<close>

theorem disconnect_leaves_earlier_handshake_pending:
  "fst (swt_connect_begin True None ''shell'' (swt_new :: string SharedWorkerTransport)) = AwaitingHandshake 0
   \<and> fst (swt_connect_begin True None ''shell'' connecting_transport) = AwaitingHandshake 1
   \<and> hs_promise (handshakes twice_connecting_transport 0) = Pending
   \<and> hs_promise (handshakes (swt_disconnect twice_connecting_transport) 1)
       = Rejected (SwarmRelayError ''Connection aborted'' ConnectionFailed None)
   \<and> hs_promise (handshakes (swt_disconnect twice_connecting_transport) 0) = Pending
   \<and> hs_timeout (handshakes (swt_disconnect twice_connecting_transport) 0) = Armed 5000
   \<and> swt_connect_resume 0 (swt_disconnect twice_connecting_transport) = None
   \<and> hs_promise (handshakes (timeout_fires 0 (swt_disconnect twice_connecting_transport)) 0)
       = Rejected (SwarmRelayError ''SharedWorker registration timed out'' ConnectionFailed None)"
proof -
  have a: "fst (swt_connect_begin True None ''shell'' (swt_new :: string SharedWorkerTransport)) = AwaitingHandshake 0"
    by (simp add: swt_connect_begin_def handshake_def swt_new_def Let_def)
  have b: "fst (swt_connect_begin True None ''shell'' connecting_transport) = AwaitingHandshake 1"
    by (simp add: connecting_transport_def swt_connect_begin_def handshake_def swt_new_def Let_def)
  have d: "handshakes (swt_disconnect twice_connecting_transport) =
      (handshakes twice_connecting_transport)(1 :=
         \<lparr>hs_timeout = Cleared,
          hs_promise = Rejected (SwarmRelayError ''Connection aborted'' ConnectionFailed None)\<rparr>)"
    unfolding disconnect_aborts(1) [OF twice_connecting_facts(2)] twice_connecting_facts(4)
    by (simp add: reject_def clearTimeout_def)
  have h0: "handshakes (swt_disconnect twice_connecting_transport) 0
      = \<lparr>hs_timeout = Armed 5000, hs_promise = Pending\<rparr>"
    by (simp add: d twice_connecting_facts)
  have h1: "hs_promise (handshakes (swt_disconnect twice_connecting_transport) 1)
       = Rejected (SwarmRelayError ''Connection aborted'' ConnectionFailed None)"
    by (simp add: d)
  have r: "swt_connect_resume 0 (swt_disconnect twice_connecting_transport) = None"
    by (simp add: swt_connect_resume_def h0)
  have f: "hs_promise (handshakes (timeout_fires 0 (swt_disconnect twice_connecting_transport)) 0)
       = Rejected (SwarmRelayError ''SharedWorker registration timed out'' ConnectionFailed None)"
    by (simp add: timeout_fires_def h0 reject_def)
  from a b h0 h1 r f show ?thesis by (simp add: twice_connecting_facts)
qed

end
